theory Spec2Isabelle
  imports Main
begin

section \<open>Values exchanged with the client\<close>

text \<open>
  The tool \<^verbatim>\<open>get_ga4_data\<close> of \<^verbatim>\<open>ga4_mcp_server.py\<close> receives loosely typed
  arguments: whatever a JSON document can hold. They are modelled by the datatype
  below. A Python \<^verbatim>\<open>str\<close> is a \<open>string\<close> (code points below 256), a
  \<^verbatim>\<open>dict\<close> is an association list in insertion order, read with \<open>map_of\<close>
  (a Python dict holds each key once, so does a well-formed \<open>JObj\<close>).
  Floating-point numbers are not part of the model.
\<close>

datatype json =
    JNull
  | JBool bool
  | JInt int
  | JStr string
  | JList "json list"
  | JObj "(string \<times> json) list"

text \<open>Truth value of an object, as \<^verbatim>\<open>if x:\<close> and \<^verbatim>\<open>not x\<close> read it.\<close>

fun py_truthy :: "json \<Rightarrow> bool" where
  "py_truthy JNull = False"
| "py_truthy (JBool b) = b"
| "py_truthy (JInt n) = (n \<noteq> 0)"
| "py_truthy (JStr s) = (s \<noteq> [])"
| "py_truthy (JList xs) = (xs \<noteq> [])"
| "py_truthy (JObj kvs) = (kvs \<noteq> [])"

text \<open>
  \<^verbatim>\<open>for e in x\<close>: a list yields its elements, a dict its keys, a string its
  characters (each a string of length one); anything else raises \<^verbatim>\<open>TypeError\<close>,
  which is the value \<open>None\<close> here.
\<close>

fun py_iter :: "json \<Rightarrow> json list option" where
  "py_iter (JList xs) = Some xs"
| "py_iter (JObj kvs) = Some (map (\<lambda>kv. JStr (fst kv)) kvs)"
| "py_iter (JStr s) = Some (map (\<lambda>c. JStr [c]) s)"
| "py_iter _ = None"

section \<open>The filter compiler\<close>

text \<open>
  \<^verbatim>\<open>build_filter_expr\<close> (lines 811 to 884) turns the client's filter specification into
  the backend's \<^verbatim>\<open>FilterExpression\<close> message. The message types come from the
  backend's client library; they are modelled by the datatypes below, one constructor
  for each way the source builds a message. A matcher records the arguments the source
  passes to the library's constructor.
\<close>

datatype match_type = EXACT | BEGINS_WITH | ENDS_WITH | CONTAINS | FULL_REGEXP | PARTIAL_REGEXP

datatype matcher =
    StringFilter (sf_value: json) (sf_match_type: match_type) (sf_case_sensitive: json)
  | InListFilter (ilf_values: json) (ilf_case_sensitive: json)

datatype filter_expression =
    And_group "filter_expression list"
  | Or_group "filter_expression list"
  | Not_expression filter_expression
  | Field_filter string matcher

text \<open>The table \<^verbatim>\<open>match_type_map\<close> of lines 850 to 857.\<close>

definition match_type_map :: "(string \<times> match_type) list" where
  "match_type_map =
    [(''EXACT'', EXACT),
     (''BEGINS_WITH'', BEGINS_WITH),
     (''ENDS_WITH'', ENDS_WITH),
     (''CONTAINS'', CONTAINS),
     (''FULL_REGEXP'', FULL_REGEXP),
     (''PARTIAL_REGEXP'', PARTIAL_REGEXP)]"

text \<open>
  Line 858: \<^verbatim>\<open>match_type_map.get(sf.get('matchType', 'EXACT'), EXACT)\<close>. The argument
  is the entry of \<^verbatim>\<open>sf\<close> under \<^verbatim>\<open>matchType\<close>, if any. Looking up a list or a
  dict raises \<^verbatim>\<open>TypeError\<close> (unhashable), the result \<open>None\<close>; any other value that
  is not one of the six names gives \<open>EXACT\<close>.
\<close>

fun lookup_match_type :: "json option \<Rightarrow> match_type option" where
  "lookup_match_type None = Some EXACT"
| "lookup_match_type (Some (JStr name)) =
     (case map_of match_type_map name of Some mt \<Rightarrow> Some mt | None \<Rightarrow> Some EXACT)"
| "lookup_match_type (Some (JList xs)) = None"
| "lookup_match_type (Some (JObj kvs)) = None"
| "lookup_match_type (Some v) = Some EXACT"

text \<open>\<^verbatim>\<open>d.get(key, default)\<close> on a dict.\<close>

definition dict_get :: "(string \<times> json) list \<Rightarrow> string \<Rightarrow> json \<Rightarrow> json" where
  "dict_get d k dflt = (case map_of d k of Some v \<Rightarrow> v | None \<Rightarrow> dflt)"

text \<open>
  Lines 847 to 877, reached once the field name is accepted: the matcher of a leaf.
  \<open>accepts\<close> stands for the type check of the library's constructor, which raises when
  it refuses an argument. \<^verbatim>\<open>sf.get\<close> on anything but a dict raises
  \<^verbatim>\<open>AttributeError\<close>. All of these are caught at line 882 and the result is \<open>None\<close>,
  as it is when neither matcher key is present (line 880).
\<close>

definition build_matcher ::
  "(matcher \<Rightarrow> bool) \<Rightarrow> string \<Rightarrow> (string \<times> json) list \<Rightarrow> filter_expression option" where
  "build_matcher accepts field f =
    (case map_of f ''stringFilter'' of
       Some sfv \<Rightarrow>
         (case sfv of
            JObj sf \<Rightarrow>
              (case lookup_match_type (map_of sf ''matchType'') of
                 None \<Rightarrow> None
               | Some match_type \<Rightarrow>
                   (let m = StringFilter (dict_get sf ''value'' (JStr [])) match_type
                              (dict_get sf ''caseSensitive'' (JBool False))
                    in if accepts m then Some (Field_filter field m) else None))
          | _ \<Rightarrow> None)
     | None \<Rightarrow>
         (case map_of f ''inListFilter'' of
            Some ilfv \<Rightarrow>
              (case ilfv of
                 JObj ilf \<Rightarrow>
                   (let m = InListFilter (dict_get ilf ''values'' (JList []))
                              (dict_get ilf ''caseSensitive'' (JBool False))
                    in if accepts m then Some (Field_filter field m) else None)
               | _ \<Rightarrow> None)
          | None \<Rightarrow> None))"

text \<open>
  Lines 838 to 845: \<^verbatim>\<open>f = expr['filter']\<close>, \<^verbatim>\<open>field = f.get('fieldName')\<close>, then
  \<^verbatim>\<open>if not field: return None\<close> and \<^verbatim>\<open>if field not in valid_dimensions: return None\<close>.
  \<^verbatim>\<open>valid_dimensions\<close> is a set of strings: a list or a dict is unhashable
  (\<^verbatim>\<open>TypeError\<close>), a number or a boolean is not a member.
\<close>

fun build_leaf ::
  "string set \<Rightarrow> (matcher \<Rightarrow> bool) \<Rightarrow> json \<Rightarrow> filter_expression option" where
  "build_leaf valid_dimensions accepts (JObj f) =
     (case map_of f ''fieldName'' of
        None \<Rightarrow> None
      | Some field \<Rightarrow>
          if \<not> py_truthy field then None
          else (case field of
                  JStr name \<Rightarrow>
                    if name \<notin> valid_dimensions then None
                    else build_matcher accepts name f
                | _ \<Rightarrow> None))"
| "build_leaf valid_dimensions accepts _ = None"

text \<open>
  Lines 815 and 824: \<^verbatim>\<open>expr[key]['expressions']\<close>, the sequence the loop runs over.
  A missing key (\<^verbatim>\<open>KeyError\<close>), a group that is not a dict and a value that cannot be
  iterated (\<^verbatim>\<open>TypeError\<close>) are \<open>None\<close>.
\<close>

definition group_expressions :: "(string \<times> json) list \<Rightarrow> string \<Rightarrow> json list option" where
  "group_expressions expr key =
    (case map_of expr key of
       Some (JObj g) \<Rightarrow>
         (case map_of g ''expressions'' of
            Some es \<Rightarrow> py_iter es
          | None \<Rightarrow> None)
     | _ \<Rightarrow> None)"

text \<open>
  The loop of lines 814 to 819 (and 823 to 828): build every element, append it to
  \<^verbatim>\<open>expressions\<close>, and leave with \<open>None\<close> at the first element that fails.
\<close>

fun build_each :: "('a \<Rightarrow> 'b option) \<Rightarrow> 'a list \<Rightarrow> 'b list \<Rightarrow> 'b list option" where
  "build_each build [] expressions = Some expressions"
| "build_each build (e # es) expressions =
     (case build e of
        None \<Rightarrow> None
      | Some built_expr \<Rightarrow> build_each build es (expressions @ [built_expr]))"

lemma build_each_cong [fundef_cong]:
  "es = es' \<Longrightarrow> acc = acc' \<Longrightarrow> (\<And>e. e \<in> set es' \<Longrightarrow> build e = build' e)
   \<Longrightarrow> build_each build es acc = build_each build' es' acc'"
proof (induction es arbitrary: es' acc acc')
  case Nil
  then show ?case by simp
next
  case (Cons e es)
  then show ?case by (auto split: option.splits)
qed

lemma size_map_of:
  "map_of kvs k = Some v \<Longrightarrow> size v < size (JObj kvs)"
  by (induction kvs) (auto split: if_splits)

lemma size_py_iter:
  "py_iter v = Some es \<Longrightarrow> e \<in> set es \<Longrightarrow> size e \<le> size v"
proof (cases v)
  case (JList xs)
  assume "py_iter v = Some es" "e \<in> set es"
  with JList have "e \<in> set xs" by simp
  then have "size e < size_list size xs" by (induction xs) auto
  with JList show ?thesis by simp
qed auto

lemma size_group_expressions:
  assumes "group_expressions expr key = Some es" "e \<in> set es"
  shows "size e < size (JObj expr)"
proof -
  from assms(1) obtain g v where g: "map_of expr key = Some (JObj g)"
    and v: "map_of g ''expressions'' = Some v" and it: "py_iter v = Some es"
    by (auto simp: group_expressions_def split: option.splits json.splits)
  have "size e \<le> size v" using it assms(2) by (rule size_py_iter)
  also have "size v < size (JObj g)" using v by (rule size_map_of)
  also have "size (JObj g) < size (JObj expr)" using g by (rule size_map_of)
  finally show ?thesis .
qed

text \<open>
  Lines 820, 829 and 835 hand the children to the constructors of the library, inside
  the \<^verbatim>\<open>try\<close> of line 812: when a constructor raises, line 884 returns \<open>None\<close>.
  \<open>builds\<close> tells whether the library builds the message.
\<close>

definition construct ::
  "(filter_expression \<Rightarrow> bool) \<Rightarrow> filter_expression \<Rightarrow> filter_expression option" where
  "construct builds message = (if builds message then Some message else None)"

text \<open>
  \<^verbatim>\<open>build_filter_expr\<close>. The keys are tried in the order of the source. On a value
  that is not a dict, \<^verbatim>\<open>'andGroup' in expr\<close> raises (a number, a boolean,
  \<^verbatim>\<open>None\<close>), or holds and the subscript \<^verbatim>\<open>expr['andGroup']\<close> raises (a string or
  a list), or all four tests fail and line 880 is reached: \<open>None\<close> in every case.
  The depth of the recursion is not bounded here; the interpreter's recursion limit is
  not modelled.
\<close>

function (sequential) build_filter_expr ::
  "string set \<Rightarrow> (matcher \<Rightarrow> bool) \<Rightarrow> (filter_expression \<Rightarrow> bool) \<Rightarrow> json
   \<Rightarrow> filter_expression option" where
  "build_filter_expr valid_dimensions accepts builds (JObj expr) =
     (if map_of expr ''andGroup'' \<noteq> None then
        (case group_expressions expr ''andGroup'' of
           None \<Rightarrow> None
         | Some es \<Rightarrow>
             (case build_each (build_filter_expr valid_dimensions accepts builds) es [] of
                None \<Rightarrow> None
              | Some expressions \<Rightarrow> construct builds (And_group expressions)))
      else if map_of expr ''orGroup'' \<noteq> None then
        (case group_expressions expr ''orGroup'' of
           None \<Rightarrow> None
         | Some es \<Rightarrow>
             (case build_each (build_filter_expr valid_dimensions accepts builds) es [] of
                None \<Rightarrow> None
              | Some expressions \<Rightarrow> construct builds (Or_group expressions)))
      else if map_of expr ''notExpression'' \<noteq> None then
        (case map_of expr ''notExpression'' of
           None \<Rightarrow> None
         | Some e \<Rightarrow>
             (case build_filter_expr valid_dimensions accepts builds e of
                None \<Rightarrow> None
              | Some built_expr \<Rightarrow> construct builds (Not_expression built_expr)))
      else if map_of expr ''filter'' \<noteq> None then
        (case map_of expr ''filter'' of
           None \<Rightarrow> None
         | Some f \<Rightarrow> build_leaf valid_dimensions accepts f)
      else None)"
| "build_filter_expr valid_dimensions accepts builds _ = None"
  by pat_completeness auto
termination
  by (relation "measure (\<lambda>(valid_dimensions, accepts, builds, expr). size expr)")
     (auto dest: size_group_expressions size_map_of)

section \<open>Strings\<close>

text \<open>
  \<^verbatim>\<open>s.strip()\<close> removes the white space at both ends. For code points below 256,
  Python's white space is: the characters 9 to 13, 28 to 32, 133 and 160.
\<close>

definition is_space :: "char \<Rightarrow> bool" where
  "is_space c =
    (let n = of_char c :: nat
     in (9 \<le> n \<and> n \<le> 13) \<or> (28 \<le> n \<and> n \<le> 32) \<or> n = 133 \<or> n = 160)"

definition strip :: "string \<Rightarrow> string" where
  "strip s = rev (dropWhile is_space (rev (dropWhile is_space s)))"

text \<open>\<^verbatim>\<open>s.split(sep)\<close> for a separator of one character: never the empty list.\<close>

fun split :: "char \<Rightarrow> string \<Rightarrow> string list" where
  "split sep [] = [[]]"
| "split sep (c # cs) =
     (if c = sep then [] # split sep cs
      else (case split sep cs of
              w # ws \<Rightarrow> (c # w) # ws
            | [] \<Rightarrow> [[c]]))"

text \<open>\<^verbatim>\<open>sep.join(parts)\<close>.\<close>

fun join :: "char \<Rightarrow> string list \<Rightarrow> string" where
  "join sep [] = []"
| "join sep [w] = w"
| "join sep (w # ws) = w @ sep # join sep ws"

text \<open>\<^verbatim>\<open>str(x)\<close>. An integer is printed in decimal.\<close>

definition digit_char :: "nat \<Rightarrow> char" where
  "digit_char d = char_of (48 + d)"

fun decimal :: "nat \<Rightarrow> string" where
  "decimal n = (if n < 10 then [digit_char n] else decimal (n div 10) @ [digit_char (n mod 10)])"

declare decimal.simps [simp del]

definition str_int :: "int \<Rightarrow> string" where
  "str_int i = (if i < 0 then CHR ''-'' # decimal (nat (- i)) else decimal (nat i))"

text \<open>
  \<^verbatim>\<open>repr\<close> of a string: single quotes, unless the string holds a single quote and no
  double quote; the quote and the backslash are escaped, tab, line feed and carriage
  return are written \<^verbatim>\<open>\t\<close>, \<^verbatim>\<open>\n\<close>, \<^verbatim>\<open>\r\<close>, and the other characters that
  are not printable as \<^verbatim>\<open>\xNN\<close>.
\<close>

definition hex_digit :: "nat \<Rightarrow> char" where
  "hex_digit d = (if d < 10 then char_of (48 + d) else char_of (87 + d))"

definition printable :: "char \<Rightarrow> bool" where
  "printable c =
    (let n = of_char c :: nat
     in (32 \<le> n \<and> n < 127) \<or> (161 \<le> n \<and> n \<noteq> 173))"

definition repr_char :: "char \<Rightarrow> char \<Rightarrow> string" where
  "repr_char quote c =
    (if c = quote \<or> c = CHR 0x5C then [CHR 0x5C, c]
     else if c = CHR 0x09 then [CHR 0x5C, CHR ''t'']
     else if c = CHR 0x0A then [CHR 0x5C, CHR ''n'']
     else if c = CHR 0x0D then [CHR 0x5C, CHR ''r'']
     else if printable c then [c]
     else [CHR 0x5C, CHR ''x'', hex_digit (of_char c div 16), hex_digit (of_char c mod 16)])"

definition repr_str :: "string \<Rightarrow> string" where
  "repr_str s =
    (let quote = (if CHR 0x27 \<in> set s \<and> CHR 0x22 \<notin> set s then CHR 0x22 else CHR 0x27)
     in quote # concat (map (repr_char quote) s) @ [quote])"

text \<open>\<^verbatim>\<open>', '.join(parts)\<close>, as the \<^verbatim>\<open>repr\<close> of a list or a dict separates its items.\<close>

fun comma_sep :: "string list \<Rightarrow> string" where
  "comma_sep [] = []"
| "comma_sep [w] = w"
| "comma_sep (w # ws) = w @ '', '' @ comma_sep ws"

fun py_repr :: "json \<Rightarrow> string" where
  "py_repr JNull = ''None''"
| "py_repr (JBool b) = (if b then ''True'' else ''False'')"
| "py_repr (JInt i) = str_int i"
| "py_repr (JStr s) = repr_str s"
| "py_repr (JList xs) = ''['' @ comma_sep (map py_repr xs) @ '']''"
| "py_repr (JObj kvs) =
     ''{'' @ comma_sep (map (\<lambda>kv. repr_str (fst kv) @ '': '' @ py_repr (snd kv)) kvs) @ ''}''"

fun py_str :: "json \<Rightarrow> string" where
  "py_str (JStr s) = s"
| "py_str v = py_repr v"


section \<open>Exceptions and what a call can do\<close>

text \<open>
  An exception that \<^verbatim>\<open>except Exception\<close> catches: the two kinds the source or the
  interpreter raise by themselves, and any other one, with its text \<^verbatim>\<open>str(e)\<close> and
  its attribute \<^verbatim>\<open>details\<close>, which line 929 looks for and line 930 calls. The
  attribute is absent, or a method that returns a text, or a value that cannot be called.
\<close>

datatype details_attr = No_details | Details_method string | Details_value

datatype py_exception =
    JSONDecodeError
  | TypeError
  | Exception (exc_str: string) (exc_details: details_attr)

text \<open>
  A call returns, raises an exception, or leaves through \<^verbatim>\<open>sys.exit\<close>.
  \<^verbatim>\<open>SystemExit\<close> is no \<^verbatim>\<open>Exception\<close>: \<^verbatim>\<open>except Exception\<close> does not catch it.
\<close>

datatype 'a outcome = Returns 'a | Raises py_exception | SystemExit int

section \<open>Reading JSON text\<close>

text \<open>
  \<^verbatim>\<open>json.loads\<close> belongs to Python's library. The operations below take it as a
  function \<open>loads\<close> from the text to the value read or the exception raised. The parser
  \<open>json_loads\<close> that follows gives its results on the documents it is run on further
  down: documents made of \<^verbatim>\<open>null\<close>, \<^verbatim>\<open>true\<close>, \<^verbatim>\<open>false\<close>, integers, strings
  with the one-letter escapes, arrays and objects. (Numbers with a fraction or an
  exponent, the constants \<^verbatim>\<open>NaN\<close> and \<^verbatim>\<open>Infinity\<close>, and \<^verbatim>\<open>\u\<close> escapes are
  refused by it; \<^verbatim>\<open>json.loads\<close> reads those.)
\<close>

definition json_ws :: "char \<Rightarrow> bool" where
  "json_ws c = (c = CHR '' '' \<or> c = CHR 0x09 \<or> c = CHR 0x0A \<or> c = CHR 0x0D)"

definition skip_ws :: "string \<Rightarrow> string" where
  "skip_ws s = dropWhile json_ws s"

definition unescape :: "char \<Rightarrow> char option" where
  "unescape c =
    (if c = CHR 0x22 \<or> c = CHR 0x5C \<or> c = CHR ''/'' then Some c
     else if c = CHR ''b'' then Some (CHR 0x08)
     else if c = CHR ''f'' then Some (CHR 0x0C)
     else if c = CHR ''n'' then Some (CHR 0x0A)
     else if c = CHR ''r'' then Some (CHR 0x0D)
     else if c = CHR ''t'' then Some (CHR 0x09)
     else None)"

text \<open>The characters after an opening quote, up to the closing one, and the rest.\<close>

fun scan_string :: "string \<Rightarrow> string \<Rightarrow> (string \<times> string) option" where
  "scan_string [] acc = None"
| "scan_string [c] acc = (if c = CHR 0x22 then Some (acc, []) else None)"
| "scan_string (c # d # cs) acc =
     (if c = CHR 0x22 then Some (acc, d # cs)
      else if c = CHR 0x5C then
        (case unescape d of None \<Rightarrow> None | Some ch \<Rightarrow> scan_string cs (acc @ [ch]))
      else if (of_char c :: nat) < 32 then None
      else scan_string (d # cs) (acc @ [c]))"

definition is_digit :: "char \<Rightarrow> bool" where
  "is_digit c = (48 \<le> (of_char c :: nat) \<and> (of_char c :: nat) \<le> 57)"

definition digits_value :: "string \<Rightarrow> int" where
  "digits_value ds = foldl (\<lambda>a d. 10 * a + (int (of_char d) - 48)) 0 ds"

text \<open>
  An integer literal: \<^verbatim>\<open>0\<close> or a digit from 1 to 9 followed by digits. A fraction
  or an exponent after it makes a floating-point number, which is refused here.
\<close>

definition float_tail :: "string \<Rightarrow> bool" where
  "float_tail r =
    (case r of
       c # d # ds \<Rightarrow>
         (c = CHR ''.'' \<and> is_digit d)
         \<or> ((c = CHR ''e'' \<or> c = CHR ''E'')
             \<and> (is_digit d \<or> ((d = CHR ''+'' \<or> d = CHR ''-'') \<and> ds \<noteq> [] \<and> is_digit (hd ds))))
     | _ \<Rightarrow> False)"

definition scan_natural :: "string \<Rightarrow> (int \<times> string) option" where
  "scan_natural s =
    (case s of
       [] \<Rightarrow> None
     | c # cs \<Rightarrow>
         if c = CHR ''0'' then (if float_tail cs then None else Some (0, cs))
         else if is_digit c then
           (let ds = takeWhile is_digit s; r = dropWhile is_digit s
            in if float_tail r then None else Some (digits_value ds, r))
         else None)"

definition scan_number :: "string \<Rightarrow> (json \<times> string) option" where
  "scan_number s =
    (case s of
       [] \<Rightarrow> None
     | c # cs \<Rightarrow>
         if c = CHR ''-'' then map_option (\<lambda>(n, r). (JInt (- n), r)) (scan_natural cs)
         else map_option (\<lambda>(n, r). (JInt n, r)) (scan_natural s))"

text \<open>\<^verbatim>\<open>d[k] = v\<close>: a key already present keeps its place and takes the new value.\<close>

definition dict_set :: "(string \<times> json) list \<Rightarrow> string \<Rightarrow> json \<Rightarrow> (string \<times> json) list" where
  "dict_set d k v =
    (if map_of d k = None then d @ [(k, v)]
     else map (\<lambda>kv. if fst kv = k then (k, v) else kv) d)"

definition starts_with :: "string \<Rightarrow> string \<Rightarrow> bool" where
  "starts_with w s = (take (length w) s = w)"

text \<open>
  One value at the head of the text. The first argument bounds the number of nested
  calls; \<open>json_loads\<close> starts with more than the text can use.
\<close>

fun parse_value :: "nat \<Rightarrow> string \<Rightarrow> (json \<times> string) option"
  and parse_elements :: "nat \<Rightarrow> string \<Rightarrow> json list \<Rightarrow> (json \<times> string) option"
  and parse_members :: "nat \<Rightarrow> string \<Rightarrow> (string \<times> json) list \<Rightarrow> (json \<times> string) option"
where
  "parse_value 0 s = None"
| "parse_value (Suc n) s =
     (case s of
        [] \<Rightarrow> None
      | c # cs \<Rightarrow>
          if c = CHR 0x22 then map_option (\<lambda>(w, r). (JStr w, r)) (scan_string cs [])
          else if c = CHR ''['' then
            (if starts_with '']'' (skip_ws cs) then Some (JList [], tl (skip_ws cs))
             else parse_elements n (skip_ws cs) [])
          else if c = CHR ''{'' then
            (if starts_with ''}'' (skip_ws cs) then Some (JObj [], tl (skip_ws cs))
             else parse_members n (skip_ws cs) [])
          else if starts_with ''null'' s then Some (JNull, drop 4 s)
          else if starts_with ''true'' s then Some (JBool True, drop 4 s)
          else if starts_with ''false'' s then Some (JBool False, drop 5 s)
          else scan_number s)"
| "parse_elements 0 s acc = None"
| "parse_elements (Suc n) s acc =
     (case parse_value n s of
        None \<Rightarrow> None
      | Some (v, r) \<Rightarrow>
          (case skip_ws r of
             [] \<Rightarrow> None
           | c # r' \<Rightarrow>
               if c = CHR '','' then parse_elements n (skip_ws r') (acc @ [v])
               else if c = CHR '']'' then Some (JList (acc @ [v]), r')
               else None))"
| "parse_members 0 s acc = None"
| "parse_members (Suc n) s acc =
     (case s of
        [] \<Rightarrow> None
      | q # cs \<Rightarrow>
          if q \<noteq> CHR 0x22 then None
          else
            (case scan_string cs [] of
               None \<Rightarrow> None
             | Some (k, r) \<Rightarrow>
                 (case skip_ws r of
                    [] \<Rightarrow> None
                  | c # r1 \<Rightarrow>
                      if c \<noteq> CHR '':'' then None
                      else
                        (case parse_value n (skip_ws r1) of
                           None \<Rightarrow> None
                         | Some (v, r2) \<Rightarrow>
                             (case skip_ws r2 of
                                [] \<Rightarrow> None
                              | c2 # r3 \<Rightarrow>
                                  if c2 = CHR '','' then parse_members n (skip_ws r3) (dict_set acc k v)
                                  else if c2 = CHR ''}'' then Some (JObj (dict_set acc k v), r3)
                                  else None)))))"

definition json_loads :: "string \<Rightarrow> py_exception + json" where
  "json_loads s =
    (case parse_value (Suc (length s)) (skip_ws s) of
       None \<Rightarrow> Inl JSONDecodeError
     | Some (v, r) \<Rightarrow> if skip_ws r = [] then Inr v else Inl JSONDecodeError)"

section \<open>The list normalizer\<close>

text \<open>
  Lines 761 to 769 for \<^verbatim>\<open>dimensions\<close>, and again lines 772 to 780 for
  \<^verbatim>\<open>metrics\<close>: the same statements, modelled once. An exception of \<^verbatim>\<open>json.loads\<close>
  other than \<^verbatim>\<open>JSONDecodeError\<close> is not caught here, and the comprehension of line
  769 raises \<^verbatim>\<open>TypeError\<close> on an argument that cannot be iterated.
\<close>

definition parse_string_arg :: "(string \<Rightarrow> py_exception + json) \<Rightarrow> string \<Rightarrow> py_exception + json" where
  "parse_string_arg loads s =
    (case loads s of
       Inr parsed \<Rightarrow>
         (case parsed of
            JList xs \<Rightarrow> Inr (JList xs)
          | _ \<Rightarrow> Inr (JList [JStr (py_str parsed)]))
     | Inl JSONDecodeError \<Rightarrow> Inr (JList (map (\<lambda>d. JStr (strip d)) (split CHR '','' s)))
     | Inl e \<Rightarrow> Inl e)"

definition strip_and_drop_empty :: "json list \<Rightarrow> string list" where
  "strip_and_drop_empty ds = map (\<lambda>d. strip (py_str d)) (filter (\<lambda>d. strip (py_str d) \<noteq> []) ds)"

definition parse_field_list :: "(string \<Rightarrow> py_exception + json) \<Rightarrow> json \<Rightarrow> py_exception + string list" where
  "parse_field_list loads arg =
    (case (case arg of JStr s \<Rightarrow> parse_string_arg loads s | _ \<Rightarrow> Inr arg) of
       Inl e \<Rightarrow> Inl e
     | Inr parsed \<Rightarrow>
         (case py_iter parsed of
            None \<Rightarrow> Inl TypeError
          | Some ds \<Rightarrow> Inr (strip_and_drop_empty ds)))"


section \<open>The catalog of dimensions\<close>

text \<open>
  \<^verbatim>\<open>GA4_DIMENSIONS\<close> (lines 291 to 480), which \<^verbatim>\<open>load_dimensions\<close> returns: for
  each category, the names of its dimensions, in the order of the source. The
  description that the source attaches to each name is left out; nothing below reads it.
\<close>

definition GA4_DIMENSIONS :: "(string \<times> string list) list" where
  "GA4_DIMENSIONS =
    [(''time'',
       [''date'', ''dateHour'', ''dateHourMinute'', ''day'', ''dayOfWeek'', ''hour'',
        ''minute'', ''month'', ''week'', ''year'', ''nthDay'', ''nthHour'', ''nthMinute'',
        ''nthMonth'', ''nthWeek'', ''nthYear'']),
     (''geography'',
       [''city'', ''cityId'', ''country'', ''countryId'', ''region'']),
     (''technology'',
       [''browser'', ''deviceCategory'', ''deviceModel'', ''operatingSystem'',
        ''operatingSystemVersion'', ''platform'', ''platformDeviceCategory'',
        ''screenResolution'']),
     (''traffic_source'',
       [''campaignId'', ''campaignName'', ''defaultChannelGroup'', ''medium'', ''source'',
        ''sourceMedium'', ''sourcePlatform'', ''sessionCampaignId'',
        ''sessionCampaignName'', ''sessionDefaultChannelGroup'', ''sessionMedium'',
        ''sessionSource'', ''sessionSourceMedium'', ''sessionSourcePlatform'']),
     (''first_user_attribution'',
       [''firstUserCampaignId'', ''firstUserCampaignName'',
        ''firstUserDefaultChannelGroup'', ''firstUserMedium'', ''firstUserSource'',
        ''firstUserSourceMedium'', ''firstUserSourcePlatform'']),
     (''content'',
       [''contentGroup'', ''contentId'', ''contentType'', ''fullPageUrl'', ''landingPage'',
        ''pageLocation'', ''pagePath'', ''pagePathPlusQueryString'', ''pageReferrer'',
        ''pageTitle'', ''unifiedScreenClass'', ''unifiedScreenName'']),
     (''events'',
       [''eventName'', ''isConversionEvent'', ''method'']),
     (''ecommerce'',
       [''itemBrand'', ''itemCategory'', ''itemCategory2'', ''itemCategory3'',
        ''itemCategory4'', ''itemCategory5'', ''itemId'', ''itemListId'', ''itemListName'',
        ''itemName'', ''itemPromotionCreativeName'', ''itemPromotionId'',
        ''itemPromotionName'', ''orderCoupon'', ''shippingTier'', ''transactionId'']),
     (''user_demographics'',
       [''newVsReturning'', ''signedInWithUserId'', ''userAgeBracket'', ''userGender'',
        ''language'', ''languageCode'']),
     (''google_ads'',
       [''googleAdsAdGroupId'', ''googleAdsAdGroupName'', ''googleAdsAdNetworkType'',
        ''googleAdsCampaignId'', ''googleAdsCampaignName'', ''googleAdsCampaignType'',
        ''googleAdsCreativeId'', ''googleAdsKeyword'', ''googleAdsQuery'',
        ''firstUserGoogleAdsAdGroupId'', ''firstUserGoogleAdsAdGroupName'',
        ''firstUserGoogleAdsCampaignId'', ''firstUserGoogleAdsCampaignName'',
        ''firstUserGoogleAdsCampaignType'', ''firstUserGoogleAdsCreativeId'',
        ''firstUserGoogleAdsKeyword'', ''firstUserGoogleAdsNetworkType'',
        ''firstUserGoogleAdsQuery'', ''sessionGoogleAdsAdGroupId'',
        ''sessionGoogleAdsAdGroupName'', ''sessionGoogleAdsCampaignId'',
        ''sessionGoogleAdsCampaignName'', ''sessionGoogleAdsCampaignType'',
        ''sessionGoogleAdsCreativeId'', ''sessionGoogleAdsKeyword'',
        ''sessionGoogleAdsNetworkType'', ''sessionGoogleAdsQuery'']),
     (''manual_campaigns'',
       [''manualAdContent'', ''manualTerm'', ''firstUserManualAdContent'',
        ''firstUserManualTerm'', ''sessionManualAdContent'', ''sessionManualTerm'']),
     (''app_specific'',
       [''appVersion'', ''streamId'', ''streamName'']),
     (''cohort_analysis'',
       [''cohort'', ''cohortNthDay'', ''cohortNthMonth'', ''cohortNthWeek'']),
     (''audiences'',
       [''audienceId'', ''audienceName'', ''brandingInterest'']),
     (''enhanced_measurement'',
       [''fileExtension'', ''fileName'', ''linkClasses'', ''linkDomain'', ''linkId'',
        ''linkText'', ''linkUrl'', ''outbound'', ''percentScrolled'', ''searchTerm'',
        ''videoProvider'', ''videoTitle'', ''videoUrl'', ''visible'']),
     (''gaming'',
       [''achievementId'', ''character'', ''groupId'', ''virtualCurrencyName'']),
     (''advertising'',
       [''adFormat'', ''adSourceName'', ''adUnitName'']),
     (''testing'',
       [''testDataFilterName''])]"

text \<open>Lines 794 to 797: the set of all names, over all categories.\<close>

definition valid_dimensions :: "string set" where
  "valid_dimensions = set (concat (map snd GA4_DIMENSIONS))"


section \<open>The library's message constructors\<close>

text \<open>
  Modelled from the spec: the type check of the constructors \<^verbatim>\<open>Filter.StringFilter\<close>
  and \<^verbatim>\<open>Filter.InListFilter\<close> of the backend's client library, which is not part of
  the repository. The spec's data model gives the fields their types:
  \<^verbatim>\<open>StringMatch { value: string, matchType, caseSensitive: bool }\<close> and
  \<^verbatim>\<open>InListMatch { values: sequence of string, caseSensitive: bool }\<close>.
\<close>

fun is_str :: "json \<Rightarrow> bool" where
  "is_str (JStr s) = True"
| "is_str _ = False"

fun is_bool :: "json \<Rightarrow> bool" where
  "is_bool (JBool b) = True"
| "is_bool _ = False"

fun is_str_list :: "json \<Rightarrow> bool" where
  "is_str_list (JList xs) = list_all is_str xs"
| "is_str_list _ = False"

fun proto_accepts :: "matcher \<Rightarrow> bool" where
  "proto_accepts (StringFilter v mt cs) = (is_str v \<and> is_bool cs)"
| "proto_accepts (InListFilter vs cs) = (is_str_list vs \<and> is_bool cs)"

text \<open>
  The library does not build a message nested too deep: a group inside a group, fifty
  times over, makes the constructor raise. \<open>proto_builds\<close> is a library that builds
  the messages with fewer levels than that. The operations above take the library's
  answer as a function; this one is for the shallow messages of the inputs further down.
\<close>

fun levels :: "filter_expression \<Rightarrow> nat" where
  "levels (Field_filter name m) = 0"
| "levels (Not_expression t) = Suc (levels t)"
| "levels (And_group ts) = Suc (fold max (map levels ts) 0)"
| "levels (Or_group ts) = Suc (fold max (map levels ts) 0)"

definition proto_builds :: "filter_expression \<Rightarrow> bool" where
  "proto_builds message = (levels message < 50)"

text \<open>
  The truth value of a message, which line 899 tests. To the library a message that
  carries nothing is falsy: a group without children, and the negation of a message
  that carries nothing.
\<close>

fun carries_nothing :: "filter_expression \<Rightarrow> bool" where
  "carries_nothing (Field_filter name m) = False"
| "carries_nothing (Not_expression t) = carries_nothing t"
| "carries_nothing (And_group ts) = (ts = [])"
| "carries_nothing (Or_group ts) = (ts = [])"

definition proto_truthy :: "filter_expression \<Rightarrow> bool" where
  "proto_truthy message = (\<not> carries_nothing message)"

section \<open>The row flattener\<close>

text \<open>
  The backend's answer to \<^verbatim>\<open>run_report\<close>, as lines 903 to 915 read it: the names of
  the dimension headers and of the metric headers, and for each row the texts of its
  dimension values and of its metric values.
\<close>

record row =
  dimension_values :: "string list"
  metric_values :: "string list"

record run_report_response =
  dimension_headers :: "string list"
  metric_headers :: "string list"
  rows :: "row list"

text \<open>
  A flattened row is the dict \<^verbatim>\<open>data_row\<close>: each key is bound to a text or to
  Python's \<^verbatim>\<open>None\<close>, which is the inner \<open>None\<close> here.
\<close>

type_synonym data_row = "string \<rightharpoonup> string option"

text \<open>
  The loops of lines 905 to 909 and 910 to 914: \<^verbatim>\<open>for i, header in enumerate(headers)\<close>,
  started at index \<open>i\<close>.
\<close>

fun set_values :: "string list \<Rightarrow> string list \<Rightarrow> nat \<Rightarrow> data_row \<Rightarrow> data_row" where
  "set_values [] values i data_row = data_row"
| "set_values (header # headers) values i data_row =
     set_values headers values (Suc i)
       (if i < length values then data_row(header \<mapsto> Some (values ! i))
        else data_row(header \<mapsto> None))"

definition flatten_row :: "string list \<Rightarrow> string list \<Rightarrow> row \<Rightarrow> data_row" where
  "flatten_row dim_headers met_headers r =
     set_values met_headers (metric_values r) 0
       (set_values dim_headers (dimension_values r) 0 Map.empty)"

text \<open>The loop of line 903 over the rows, appending each flattened row to \<^verbatim>\<open>result\<close>.\<close>

fun flatten_rows :: "string list \<Rightarrow> string list \<Rightarrow> row list \<Rightarrow> data_row list \<Rightarrow> data_row list" where
  "flatten_rows dim_headers met_headers [] result = result"
| "flatten_rows dim_headers met_headers (r # rs) result =
     flatten_rows dim_headers met_headers rs (result @ [flatten_row dim_headers met_headers r])"

definition flatten_response :: "run_report_response \<Rightarrow> data_row list" where
  "flatten_response response =
     flatten_rows (dimension_headers response) (metric_headers response) (rows response) []"

section \<open>Credentials\<close>

text \<open>
  \<^verbatim>\<open>get_oauth_credentials\<close> (lines 202 to 259), which \<^verbatim>\<open>get_ga4_data\<close> reaches through
  \<^verbatim>\<open>get_authenticated_client\<close> at line 891. What it reads from outside is gathered in
  a record: the credentials unpickled from the token file, if the file exists; the
  configured client id and secret; what refreshing the token and what the browser flow
  do. Reading and writing the token file are taken to succeed. Writing it and
  initialising the property manager change the state that later calls see; they are not
  modelled, one call is.
\<close>

record credentials =
  valid :: bool
  expired :: bool
  refresh_token :: "string option"

record oauth_state =
  token_file :: "credentials option"
  client_id :: "string option"
  client_secret :: "string option"
  refresh :: "credentials \<Rightarrow> py_exception + credentials"
  run_local_server :: "py_exception + credentials"

definition falsy_text :: "string option \<Rightarrow> bool" where
  "falsy_text t = (t = None \<or> t = Some [])"

definition get_oauth_credentials :: "oauth_state \<Rightarrow> credentials outcome" where
  "get_oauth_credentials st =
    (case token_file st of
       Some creds \<Rightarrow>
         if valid creds then Returns creds
         else
           (case (if expired creds \<and> \<not> falsy_text (refresh_token creds)
                  then (case refresh st creds of Inl e \<Rightarrow> None | Inr creds' \<Rightarrow> Some creds')
                  else Some creds) of
              Some creds' \<Rightarrow> Returns creds'
            | None \<Rightarrow>
                if falsy_text (client_id st) \<or> falsy_text (client_secret st) then SystemExit 1
                else (case run_local_server st of Inl e \<Rightarrow> Raises e | Inr creds' \<Rightarrow> Returns creds'))
     | None \<Rightarrow>
         if falsy_text (client_id st) \<or> falsy_text (client_secret st) then SystemExit 1
         else (case run_local_server st of Inl e \<Rightarrow> Raises e | Inr creds' \<Rightarrow> Returns creds'))"

section \<open>The query operation\<close>

text \<open>
  What \<^verbatim>\<open>get_ga4_data\<close> calls and does not define: \<^verbatim>\<open>json.loads\<close>, the type check
  of the library's matcher constructors, whether the library builds a group or a
  negation, the truth value it gives a message, the property manager (the global is \<^verbatim>\<open>None\<close>
  until it is initialised; \<^verbatim>\<open>validate_property_id\<close> raises \<^verbatim>\<open>TypeError\<close> on an
  unhashable identifier and otherwise answers; \<^verbatim>\<open>list_properties\<close> gives the known
  identifiers, or \<open>None\<close> for its error dict), the state of the credentials, and the
  backend's \<^verbatim>\<open>run_report\<close>.
\<close>

record property_manager =
  validate_property_id :: "json \<Rightarrow> py_exception + bool"
  list_properties :: "string list option"

record run_report_request =
  property :: string
  dimensions :: "string list"
  metrics :: "string list"
  date_ranges :: "(string \<times> string) list"
  dimension_filter :: "filter_expression option"

record environment =
  loads :: "string \<Rightarrow> py_exception + json"
  accepts :: "matcher \<Rightarrow> bool"
  builds :: "filter_expression \<Rightarrow> bool"
  truthy :: "filter_expression \<Rightarrow> bool"
  manager :: "property_manager option"
  oauth :: oauth_state
  run_report :: "run_report_request \<Rightarrow> py_exception + run_report_response"

text \<open>
  The dict returned on a failure carries one key, \<^verbatim>\<open>error\<close>, and a text. The texts
  are told apart by the statement that builds them; \<open>Fetch_failed\<close> is the text the
  handler of lines 917 to 932 builds from the exception it caught.
\<close>

datatype error =
    Property_id_required
  | Invalid_property_id "string list option"
  | Dimensions_empty
  | Metrics_empty
  | Filter_json_parse_failed py_exception
  | Filter_wrong_type
  | Invalid_filter
  | Fetch_failed py_exception

datatype result = Rows "data_row list" | Error error

text \<open>Lines 744 to 758: \<open>Some\<close> of the error returned, or \<open>None\<close> to go on.\<close>

definition check_property :: "environment \<Rightarrow> json \<Rightarrow> py_exception + error option" where
  "check_property env property_id =
    (if \<not> py_truthy property_id then Inr (Some Property_id_required)
     else
       (case manager env of
          None \<Rightarrow> Inr None
        | Some pm \<Rightarrow>
            (case validate_property_id pm property_id of
               Inl e \<Rightarrow> Inl e
             | Inr valid_property \<Rightarrow>
                 if valid_property then Inr None
                 else
                   (case list_properties pm of
                      Some (p # ps) \<Rightarrow> Inr (Some (Invalid_property_id (Some (p # ps))))
                    | _ \<Rightarrow> Inr (Some (Invalid_property_id None))))))"

text \<open>
  Lines 800 to 808: the specification to compile, from a text (any exception of
  \<^verbatim>\<open>json.loads\<close> is caught here, line 803) or a dict; anything else is refused.
\<close>

definition parse_filter_arg :: "environment \<Rightarrow> json \<Rightarrow> error + json" where
  "parse_filter_arg env dimension_filter_arg =
    (case dimension_filter_arg of
       JStr s \<Rightarrow>
         (case loads env s of
            Inl e \<Rightarrow> Inl (Filter_json_parse_failed e)
          | Inr filter_dict \<Rightarrow> Inr filter_dict)
     | JObj d \<Rightarrow> Inr (JObj d)
     | _ \<Rightarrow> Inl Filter_wrong_type)"

text \<open>
  Lines 789 to 888: the filter of the request, \<open>None\<close> when the argument is falsy
  (line 790), or the error returned.
\<close>

definition compile_filter :: "environment \<Rightarrow> json \<Rightarrow> error + filter_expression option" where
  "compile_filter env dimension_filter_arg =
    (if \<not> py_truthy dimension_filter_arg then Inr None
     else
       (case parse_filter_arg env dimension_filter_arg of
          Inl err \<Rightarrow> Inl err
        | Inr filter_dict \<Rightarrow>
            (case build_filter_expr valid_dimensions (accepts env) (builds env) filter_dict of
               None \<Rightarrow> Inl Invalid_filter
             | Some filter_expression \<Rightarrow> Inr (Some filter_expression))))"

text \<open>
  Lines 742 to 916, the body of the \<^verbatim>\<open>try\<close>. The dates are texts. The request is
  built at lines 892 to 900 and handed to \<^verbatim>\<open>run_report\<close>. Line 899 passes the
  compiled filter on when it is truthy, and \<^verbatim>\<open>None\<close> otherwise.
\<close>

definition request_filter :: "environment \<Rightarrow> filter_expression option \<Rightarrow> filter_expression option" where
  "request_filter env filter_expression =
    (case filter_expression of
       None \<Rightarrow> None
     | Some message \<Rightarrow> if truthy env message then Some message else None)"

definition try_body ::
  "environment \<Rightarrow> json \<Rightarrow> json \<Rightarrow> json \<Rightarrow> string \<Rightarrow> string \<Rightarrow> json \<Rightarrow> result outcome" where
  "try_body env property_id dimensions_arg metrics_arg date_range_start date_range_end
      dimension_filter_arg =
    (case check_property env property_id of
       Inl e \<Rightarrow> Raises e
     | Inr (Some err) \<Rightarrow> Returns (Error err)
     | Inr None \<Rightarrow>
    (case parse_field_list (loads env) dimensions_arg of
       Inl e \<Rightarrow> Raises e
     | Inr parsed_dimensions \<Rightarrow>
    (case parse_field_list (loads env) metrics_arg of
       Inl e \<Rightarrow> Raises e
     | Inr parsed_metrics \<Rightarrow>
    if parsed_dimensions = [] then Returns (Error Dimensions_empty)
    else if parsed_metrics = [] then Returns (Error Metrics_empty)
    else
    (case compile_filter env dimension_filter_arg of
       Inl err \<Rightarrow> Returns (Error err)
     | Inr filter_expression \<Rightarrow>
    (case get_oauth_credentials (oauth env) of
       SystemExit code \<Rightarrow> SystemExit code
     | Raises e \<Rightarrow> Raises e
     | Returns creds \<Rightarrow>
    (case run_report env
            \<lparr>property = ''properties/'' @ py_str property_id,
             dimensions = parsed_dimensions,
             metrics = parsed_metrics,
             date_ranges = [(date_range_start, date_range_end)],
             dimension_filter = request_filter env filter_expression\<rparr> of
       Inl e \<Rightarrow> Raises e
     | Inr response \<Rightarrow> Returns (Rows (flatten_response response))))))))"

text \<open>
  The handler of lines 917 to 932 returns an error dict for the exception it caught.
  \<^verbatim>\<open>hasattr(e, 'details')\<close> holds of any attribute, and calling one that is not a
  method raises \<^verbatim>\<open>TypeError\<close>, inside the handler.
\<close>

definition handler :: "py_exception \<Rightarrow> result outcome" where
  "handler e =
    (case e of
       Exception text Details_value \<Rightarrow> Raises TypeError
     | _ \<Rightarrow> Returns (Error (Fetch_failed e)))"

text \<open>
  \<^verbatim>\<open>get_ga4_data\<close>: the body, and the handler for what \<^verbatim>\<open>except Exception\<close>
  catches. \<^verbatim>\<open>SystemExit\<close> passes through it.
\<close>

definition get_ga4_data ::
  "environment \<Rightarrow> json \<Rightarrow> json \<Rightarrow> json \<Rightarrow> string \<Rightarrow> string \<Rightarrow> json \<Rightarrow> result outcome" where
  "get_ga4_data env property_id dimensions_arg metrics_arg date_range_start date_range_end
      dimension_filter_arg =
    (case try_body env property_id dimensions_arg metrics_arg date_range_start date_range_end
            dimension_filter_arg of
       Raises e \<Rightarrow> handler e
     | other \<Rightarrow> other)"


section \<open>Notions the properties are stated with\<close>

text \<open>
  The specifications that \<^verbatim>\<open>build_filter_expr\<close> calls itself on, for a given
  specification: the elements its loop runs over, or the operand of \<^verbatim>\<open>notExpression\<close>.
\<close>

fun sub_specs :: "json \<Rightarrow> json list" where
  "sub_specs (JObj expr) =
     (if map_of expr ''andGroup'' \<noteq> None then
        (case group_expressions expr ''andGroup'' of None \<Rightarrow> [] | Some es \<Rightarrow> es)
      else if map_of expr ''orGroup'' \<noteq> None then
        (case group_expressions expr ''orGroup'' of None \<Rightarrow> [] | Some es \<Rightarrow> es)
      else (case map_of expr ''notExpression'' of None \<Rightarrow> [] | Some e \<Rightarrow> [e]))"
| "sub_specs _ = []"

text \<open>The specification found by following a path of positions down from the top.\<close>

fun node_at :: "json \<Rightarrow> nat list \<Rightarrow> json option" where
  "node_at spec [] = Some spec"
| "node_at spec (i # path) =
     (if i < length (sub_specs spec) then node_at (sub_specs spec ! i) path else None)"

text \<open>
  The call gets past lines 744 to 786: the property is accepted and both lists are
  normalized to lists that are not empty.
\<close>

definition nonempty_list :: "py_exception + string list \<Rightarrow> bool" where
  "nonempty_list r = (case r of Inr (x # xs) \<Rightarrow> True | _ \<Rightarrow> False)"

definition reaches_filter :: "environment \<Rightarrow> json \<Rightarrow> json \<Rightarrow> json \<Rightarrow> bool" where
  "reaches_filter env property_id dimensions_arg metrics_arg =
    (check_property env property_id = Inr None
     \<and> nonempty_list (parse_field_list (loads env) dimensions_arg)
     \<and> nonempty_list (parse_field_list (loads env) metrics_arg))"

text \<open>A dict with none of the four keys that \<^verbatim>\<open>build_filter_expr\<close> looks for.\<close>

definition no_recognized_key :: "(string \<times> json) list \<Rightarrow> bool" where
  "no_recognized_key expr =
    (map_of expr ''andGroup'' = None \<and> map_of expr ''orGroup'' = None
     \<and> map_of expr ''notExpression'' = None \<and> map_of expr ''filter'' = None)"


text \<open>What lines 906 to 909 write for the header at position \<open>i\<close>.\<close>

definition cell :: "string list \<Rightarrow> nat \<Rightarrow> string option" where
  "cell values i = (if i < length values then Some (values ! i) else None)"

section \<open>Inputs the properties are run on\<close>

definition us_leaf :: json where
  "us_leaf = JObj [(''filter'', JObj [(''fieldName'', JStr ''country''),
                                      (''stringFilter'', JObj [(''value'', JStr ''US'')])])]"

definition us_filter :: filter_expression where
  "us_filter = Field_filter ''country'' (StringFilter (JStr ''US'') EXACT (JBool False))"


definition unknown_leaf :: json where
  "unknown_leaf = JObj [(''filter'', JObj [(''fieldName'', JStr ''nosuch''),
                                           (''stringFilter'', JObj [(''value'', JStr ''x'')])])]"

text \<open>A leaf with an unknown field, two levels down, between leaves that are valid.\<close>

definition nested_spec :: json where
  "nested_spec =
     JObj [(''andGroup'', JObj [(''expressions'',
       JList [us_leaf,
              JObj [(''orGroup'', JObj [(''expressions'', JList [us_leaf, unknown_leaf])])],
              us_leaf])])]"

text \<open>A node with all four keys, and a leaf with both matchers.\<close>

definition and_value :: json where
  "and_value = JObj [(''expressions'', JList [us_leaf])]"

definition or_value :: json where
  "or_value = JObj [(''expressions'', JList [us_leaf, us_leaf])]"

definition four_keys :: "(string \<times> json) list" where
  "four_keys = [(''filter'', JInt 0), (''notExpression'', us_leaf),
                (''orGroup'', or_value), (''andGroup'', and_value)]"

definition two_matchers :: "(string \<times> json) list" where
  "two_matchers = [(''inListFilter'', JObj [(''values'', JList [JStr ''FR''])]),
                   (''fieldName'', JStr ''country''),
                   (''stringFilter'', JObj [(''value'', JStr ''US'')])]"

text \<open>A leaf whose \<^verbatim>\<open>stringFilter\<close> gives a match type that is not one of the six.\<close>

definition fuzzy_leaf :: "(string \<times> json) list" where
  "fuzzy_leaf = [(''filter'', JObj [(''fieldName'', JStr ''country''),
                                    (''stringFilter'', JObj [(''matchType'', JStr ''FUZZY'')])])]"

text \<open>
  Three rows, not sorted, the first and the last equal, the second without its metric
  value; and a response where a dimension and a metric are both called \<^verbatim>\<open>x\<close>.
\<close>

definition demo_response :: run_report_response where
  "demo_response =
     \<lparr>dimension_headers = [''date''], metric_headers = [''totalUsers''],
      rows = [\<lparr>dimension_values = [''20240102''], metric_values = [''7'']\<rparr>,
              \<lparr>dimension_values = [''20240101''], metric_values = []\<rparr>,
              \<lparr>dimension_values = [''20240102''], metric_values = [''7'']\<rparr>]\<rparr>"

definition shared_response :: run_report_response where
  "shared_response =
     \<lparr>dimension_headers = [''date'', ''x''], metric_headers = [''x'', ''totalUsers''],
      rows = [\<lparr>dimension_values = [''20240101'', ''dimension''],
               metric_values = [''42'', ''7'']\<rparr>]\<rparr>"

text \<open>
  An environment where the query goes through: a property manager that knows the
  property \<^verbatim>\<open>123\<close>, valid credentials in the token file, and a backend that answers
  requests that carry no filter.
\<close>

definition demo_manager :: property_manager where
  "demo_manager =
     \<lparr>validate_property_id = (\<lambda>property_id. Inr (property_id = JStr ''123'')),
      list_properties = Some [''123'']\<rparr>"

definition good_credentials :: credentials where
  "good_credentials = \<lparr>valid = True, expired = False, refresh_token = None\<rparr>"

definition demo_oauth :: oauth_state where
  "demo_oauth =
     \<lparr>token_file = Some good_credentials, client_id = None, client_secret = None,
      refresh = (\<lambda>creds. Inr creds),
      run_local_server = Inl (Exception ''no browser'' No_details)\<rparr>"

definition demo_env :: environment where
  "demo_env =
     \<lparr>loads = json_loads, accepts = proto_accepts, builds = proto_builds,
      truthy = proto_truthy, manager = Some demo_manager,
      oauth = demo_oauth,
      run_report = (\<lambda>request. if dimension_filter request = None then Inr demo_response
                               else Inl (Exception ''filtered'' No_details))\<rparr>"

text \<open>
  The same, but the token in the file has expired, refreshing it fails, and no client
  id is configured.
\<close>

definition stale_oauth :: oauth_state where
  "stale_oauth =
     \<lparr>token_file = Some \<lparr>valid = False, expired = True, refresh_token = Some ''r''\<rparr>,
      client_id = None, client_secret = None,
      refresh = (\<lambda>creds. Inl (Exception ''refresh failed'' No_details)),
      run_local_server = Inl (Exception ''no browser'' No_details)\<rparr>"

definition stale_env :: environment where
  "stale_env = demo_env\<lparr>oauth := stale_oauth\<rparr>"

text \<open>
  The first environment again, but the backend refuses the request, with an error of
  its client library: \<^verbatim>\<open>details\<close> of such an error is a list.
\<close>

definition refusing_env :: environment where
  "refusing_env =
     demo_env\<lparr>run_report := (\<lambda>request. Inl (Exception ''403 permission denied'' Details_value))\<rparr>"

section \<open>Facts about the filter compiler\<close>

lemma country_valid: "''country'' \<in> valid_dimensions"
  by (simp add: valid_dimensions_def GA4_DIMENSIONS_def)

lemma build_us_leaf:
  "build_filter_expr valid_dimensions proto_accepts proto_builds us_leaf = Some us_filter"
  by (simp add: us_leaf_def us_filter_def build_matcher_def dict_get_def country_valid)


lemma builds_and_us: "proto_builds (And_group [us_filter])"
  by (simp add: proto_builds_def us_filter_def)



lemma build_each_None:
  "build_each f es acc = None \<longleftrightarrow> (\<exists>e \<in> set es. f e = None)"
proof (induction es arbitrary: acc)
  case Nil
  then show ?case by simp
next
  case (Cons e es)
  then show ?case by (cases "f e") auto
qed








section \<open>Groups and their children\<close>




lemma nosuch_invalid: "''nosuch'' \<notin> valid_dimensions"
  by (simp add: valid_dimensions_def GA4_DIMENSIONS_def)

lemma build_unknown_leaf:
  "build_filter_expr valid_dimensions proto_accepts proto_builds unknown_leaf = None"
  by (simp add: unknown_leaf_def nosuch_invalid)

lemma build_each_member_None:
  "c \<in> set es \<Longrightarrow> f c = None \<Longrightarrow> build_each f es acc = None"
  by (auto simp: build_each_None)

lemma sub_spec_fails:
  assumes "c \<in> set (sub_specs e)" and "build_filter_expr vd acc bld c = None"
  shows "build_filter_expr vd acc bld e = None"
proof (cases e)
  case (JObj expr)
  with assms show ?thesis
    by (auto simp: build_each_member_None split: if_splits option.splits)
qed (use assms in auto)

lemma node_fails:
  "node_at spec path = Some d \<Longrightarrow> build_filter_expr vd acc bld d = None
   \<Longrightarrow> build_filter_expr vd acc bld spec = None"
proof (induction path arbitrary: spec)
  case Nil
  then show ?case by simp
next
  case (Cons i path)
  from Cons.prems(1) have i: "i < length (sub_specs spec)"
    and at: "node_at (sub_specs spec ! i) path = Some d"
    by (auto split: if_splits)
  from Cons.IH[OF at Cons.prems(2)]
  have "build_filter_expr vd acc bld (sub_specs spec ! i) = None" .
  moreover from i have "sub_specs spec ! i \<in> set (sub_specs spec)" by simp
  ultimately show ?case by (rule sub_spec_fails[rotated])
qed

lemma unknown_field_fails:
  assumes "map_of expr ''andGroup'' = None" and "map_of expr ''orGroup'' = None"
    and "map_of expr ''notExpression'' = None" and "map_of expr ''filter'' = Some (JObj f)"
    and "map_of f ''fieldName'' = Some (JStr name)" and "name \<notin> vd"
  shows "build_filter_expr vd acc bld (JObj expr) = None"
  using assms by simp

section \<open>Facts about the query operation\<close>

lemma compile_filter_invalid:
  assumes "py_truthy arg" and "parse_filter_arg env arg = Inr spec"
    and "build_filter_expr valid_dimensions (accepts env) (builds env) spec = None"
  shows "compile_filter env arg = Inl Invalid_filter"
  using assms by (simp add: compile_filter_def)

lemma get_ga4_data_filter_error:
  assumes "reaches_filter env pid dims mets" and "compile_filter env arg = Inl err"
  shows "get_ga4_data env pid dims mets s e arg = Returns (Error err)"
  using assms
  by (auto simp: get_ga4_data_def try_body_def reaches_filter_def nonempty_list_def
           split: sum.splits list.splits)

lemma demo_check_property: "check_property demo_env (JStr ''123'') = Inr None"
  by (simp add: check_property_def demo_env_def demo_manager_def)

lemma demo_parse_date: "parse_field_list json_loads (JList [JStr ''date'']) = Inr [''date'']"
  by (simp add: parse_field_list_def strip_and_drop_empty_def strip_def is_space_def)

lemma demo_parse_users:
  "parse_field_list json_loads (JList [JStr ''totalUsers'']) = Inr [''totalUsers'']"
  by (simp add: parse_field_list_def strip_and_drop_empty_def strip_def is_space_def)

lemma demo_loads: "loads demo_env = json_loads"
  by (simp add: demo_env_def)

lemma demo_accepts: "accepts demo_env = proto_accepts"
  by (simp add: demo_env_def)

lemma demo_builds: "builds demo_env = proto_builds"
  by (simp add: demo_env_def)

lemma demo_reaches_filter:
  "reaches_filter demo_env (JStr ''123'') (JList [JStr ''date'']) (JList [JStr ''totalUsers''])"
  by (simp add: reaches_filter_def demo_check_property nonempty_list_def demo_loads
        demo_parse_date demo_parse_users)

section \<open>Failure anywhere in the specification\<close>

text \<open>
  Claim C1: if the compilation of a sub-node fails, at any depth, the compiler returns
  no tree, and the caller of the query operation receives the one error of line 888.
  The sub-node is found by a path from the top; the failure is the result \<open>None\<close> of
  \<^verbatim>\<open>build_filter_expr\<close> on it. A leaf whose field name is not in the catalog is such a
  failure, whatever its siblings are. The catalog of the compiler is arbitrary; the
  query operation uses the catalog of the source.
\<close>

theorem failure_aborts_compilation:
  assumes "node_at spec path = Some d" and "build_filter_expr vd acc bld d = None"
  shows "build_filter_expr vd acc bld spec = None
    \<and> (vd = valid_dimensions \<and> acc = accepts env \<and> bld = builds env
        \<and> reaches_filter env pid dims mets
        \<and> py_truthy arg \<and> parse_filter_arg env arg = Inr spec
        \<longrightarrow> get_ga4_data env pid dims mets s e arg = Returns (Error Invalid_filter))
    \<and> (\<forall>expr f name.
          map_of expr ''andGroup'' = None \<and> map_of expr ''orGroup'' = None
          \<and> map_of expr ''notExpression'' = None \<and> map_of expr ''filter'' = Some (JObj f)
          \<and> map_of f ''fieldName'' = Some (JStr name) \<and> name \<notin> vd
          \<longrightarrow> build_filter_expr vd acc bld (JObj expr) = None)"
proof -
  have n: "build_filter_expr vd acc bld spec = None"
    using assms by (rule node_fails)
  show ?thesis
  proof (intro conjI impI allI)
    show "build_filter_expr vd acc bld spec = None" by (rule n)
  next
    assume h: "vd = valid_dimensions \<and> acc = accepts env \<and> bld = builds env
        \<and> reaches_filter env pid dims mets
        \<and> py_truthy arg \<and> parse_filter_arg env arg = Inr spec"
    then have "compile_filter env arg = Inl Invalid_filter"
      using n by (intro compile_filter_invalid) auto
    with h show "get_ga4_data env pid dims mets s e arg = Returns (Error Invalid_filter)"
      by (intro get_ga4_data_filter_error) auto
  next
    fix expr f name
    assume "map_of expr ''andGroup'' = None \<and> map_of expr ''orGroup'' = None
          \<and> map_of expr ''notExpression'' = None \<and> map_of expr ''filter'' = Some (JObj f)
          \<and> map_of f ''fieldName'' = Some (JStr name) \<and> name \<notin> vd"
    then show "build_filter_expr vd acc bld (JObj expr) = None"
      by (intro unknown_field_fails) auto
  qed
qed

theorem failure_aborts_compilation_witness:
  "node_at nested_spec [1, 1] = Some unknown_leaf
   \<and> build_filter_expr valid_dimensions proto_accepts proto_builds unknown_leaf = None
   \<and> build_filter_expr valid_dimensions proto_accepts proto_builds nested_spec = None
   \<and> get_ga4_data demo_env (JStr ''123'') (JList [JStr ''date'']) (JList [JStr ''totalUsers''])
        ''7daysAgo'' ''yesterday'' nested_spec = Returns (Error Invalid_filter)"
proof -
  have at: "node_at nested_spec [1, 1] = Some unknown_leaf"
    by (simp add: nested_spec_def group_expressions_def)
  have t: "py_truthy nested_spec" by (simp add: nested_spec_def)
  have p: "parse_filter_arg demo_env nested_spec = Inr nested_spec"
    by (simp add: parse_filter_arg_def nested_spec_def)
  have a: "proto_accepts = accepts demo_env" by (simp add: demo_accepts)
  have b: "proto_builds = builds demo_env" by (simp add: demo_builds)
  from failure_aborts_compilation[OF at build_unknown_leaf,
      of demo_env "JStr ''123''" "JList [JStr ''date'']" "JList [JStr ''totalUsers'']"
         nested_spec "''7daysAgo''" "''yesterday''"]
    at build_unknown_leaf t p a b demo_reaches_filter
  show ?thesis by simp
qed

section \<open>Defaults of a string filter\<close>

lemma lookup_match_type_hashable:
  assumes "\<forall>xs. x \<noteq> Some (JList xs)" and "\<forall>kvs. x \<noteq> Some (JObj kvs)"
  shows "\<exists>mt. lookup_match_type x = Some mt"
  using assms by (cases x rule: lookup_match_type.cases) (auto split: option.splits)

text \<open>
  Claim C5: a leaf with a \<^verbatim>\<open>stringFilter\<close> is compiled with \<open>EXACT\<close> when the
  match type is absent or is not one of the six names, with the empty string when the
  value is absent, and with \<open>False\<close> when \<^verbatim>\<open>caseSensitive\<close> is absent. The leaf is a
  dict with none of the three keys tried before \<^verbatim>\<open>filter\<close>, and its field is in the
  catalog. A match type is a name or any other hashable value (a list or a dict makes
  the lookup of line 858 raise). The matcher below is the one handed to the library's
  constructor; the leaf is built when the constructor takes it.
\<close>

theorem string_filter_defaults:
  assumes "map_of expr ''andGroup'' = None" and "map_of expr ''orGroup'' = None"
    and "map_of expr ''notExpression'' = None"
    and "map_of expr ''filter'' = Some (JObj f)"
    and "map_of f ''fieldName'' = Some (JStr name)" and "name \<in> vd" and "name \<noteq> []"
    and "map_of f ''stringFilter'' = Some (JObj sf)"
    and "\<forall>xs. map_of sf ''matchType'' \<noteq> Some (JList xs)"
    and "\<forall>kvs. map_of sf ''matchType'' \<noteq> Some (JObj kvs)"
  shows "\<exists>v mt cs.
           build_filter_expr vd acc bld (JObj expr)
             = (if acc (StringFilter v mt cs) then Some (Field_filter name (StringFilter v mt cs))
                else None)
           \<and> ((\<forall>n. map_of sf ''matchType'' = Some (JStr n) \<longrightarrow> map_of match_type_map n = None)
                \<longrightarrow> mt = EXACT)
           \<and> (\<forall>n m. map_of sf ''matchType'' = Some (JStr n) \<and> map_of match_type_map n = Some m
                \<longrightarrow> mt = m)
           \<and> (map_of sf ''value'' = None \<longrightarrow> v = JStr [])
           \<and> (\<forall>x. map_of sf ''value'' = Some x \<longrightarrow> v = x)
           \<and> (map_of sf ''caseSensitive'' = None \<longrightarrow> cs = JBool False)
           \<and> (\<forall>x. map_of sf ''caseSensitive'' = Some x \<longrightarrow> cs = x)"
proof -
  from lookup_match_type_hashable[OF assms(9,10)]
  obtain mt where mt: "lookup_match_type (map_of sf ''matchType'') = Some mt" ..
  have unrec: "(\<forall>n. map_of sf ''matchType'' = Some (JStr n) \<longrightarrow> map_of match_type_map n = None)
                \<longrightarrow> mt = EXACT"
    using mt
    by (cases "map_of sf ''matchType''" rule: lookup_match_type.cases)
       (auto split: option.splits)
  have rec: "\<forall>n m. map_of sf ''matchType'' = Some (JStr n) \<and> map_of match_type_map n = Some m
                \<longrightarrow> mt = m"
    using mt by auto
  let ?v = "dict_get sf ''value'' (JStr [])"
  let ?cs = "dict_get sf ''caseSensitive'' (JBool False)"
  have b: "build_filter_expr vd acc bld (JObj expr)
             = (if acc (StringFilter ?v mt ?cs)
                then Some (Field_filter name (StringFilter ?v mt ?cs)) else None)"
    using assms(1-8) mt by (simp add: build_matcher_def)
  have v1: "map_of sf ''value'' = None \<longrightarrow> ?v = JStr []"
    and v2: "\<forall>x. map_of sf ''value'' = Some x \<longrightarrow> ?v = x"
    and c1: "map_of sf ''caseSensitive'' = None \<longrightarrow> ?cs = JBool False"
    and c2: "\<forall>x. map_of sf ''caseSensitive'' = Some x \<longrightarrow> ?cs = x"
    by (simp_all add: dict_get_def)
  show ?thesis
    by (rule exI[of _ ?v], rule exI[of _ mt], rule exI[of _ ?cs])
       (intro conjI b unrec rec v1 v2 c1 c2)
qed

theorem string_filter_defaults_witness:
  "build_filter_expr valid_dimensions proto_accepts proto_builds (JObj fuzzy_leaf)
   = Some (Field_filter ''country'' (StringFilter (JStr []) EXACT (JBool False)))"
proof -
  let ?f = "[(''fieldName'', JStr ''country''),
             (''stringFilter'', JObj [(''matchType'', JStr ''FUZZY'')])]"
  let ?sf = "[(''matchType'', JStr ''FUZZY'')]"
  have "\<exists>v mt cs.
          build_filter_expr valid_dimensions proto_accepts proto_builds (JObj fuzzy_leaf)
            = (if proto_accepts (StringFilter v mt cs)
               then Some (Field_filter ''country'' (StringFilter v mt cs)) else None)
          \<and> ((\<forall>n. map_of ?sf ''matchType'' = Some (JStr n) \<longrightarrow> map_of match_type_map n = None)
               \<longrightarrow> mt = EXACT)
          \<and> (\<forall>n m. map_of ?sf ''matchType'' = Some (JStr n) \<and> map_of match_type_map n = Some m
               \<longrightarrow> mt = m)
          \<and> (map_of ?sf ''value'' = None \<longrightarrow> v = JStr [])
          \<and> (\<forall>x. map_of ?sf ''value'' = Some x \<longrightarrow> v = x)
          \<and> (map_of ?sf ''caseSensitive'' = None \<longrightarrow> cs = JBool False)
          \<and> (\<forall>x. map_of ?sf ''caseSensitive'' = Some x \<longrightarrow> cs = x)"
    by (rule string_filter_defaults[of fuzzy_leaf ?f "''country''" valid_dimensions ?sf])
       (simp_all add: fuzzy_leaf_def country_valid)
  then obtain v mt cs where
    all: "build_filter_expr valid_dimensions proto_accepts proto_builds (JObj fuzzy_leaf)
            = (if proto_accepts (StringFilter v mt cs)
               then Some (Field_filter ''country'' (StringFilter v mt cs)) else None)
          \<and> ((\<forall>n. map_of ?sf ''matchType'' = Some (JStr n) \<longrightarrow> map_of match_type_map n = None)
               \<longrightarrow> mt = EXACT)
          \<and> (\<forall>n m. map_of ?sf ''matchType'' = Some (JStr n) \<and> map_of match_type_map n = Some m
               \<longrightarrow> mt = m)
          \<and> (map_of ?sf ''value'' = None \<longrightarrow> v = JStr [])
          \<and> (\<forall>x. map_of ?sf ''value'' = Some x \<longrightarrow> v = x)
          \<and> (map_of ?sf ''caseSensitive'' = None \<longrightarrow> cs = JBool False)
          \<and> (\<forall>x. map_of ?sf ''caseSensitive'' = Some x \<longrightarrow> cs = x)"
    by (elim exE)
  note b = all[THEN conjunct1]
  note m = all[THEN conjunct2, THEN conjunct1]
  note v = all[THEN conjunct2, THEN conjunct2, THEN conjunct2, THEN conjunct1]
  note c = all[THEN conjunct2, THEN conjunct2, THEN conjunct2, THEN conjunct2, THEN conjunct2,
               THEN conjunct1]
  from m have "mt = EXACT" by (simp add: match_type_map_def)
  moreover from v have "v = JStr []" by simp
  moreover from c have "cs = JBool False" by simp
  ultimately show ?thesis using b by simp
qed

section \<open>Nodes with several keys\<close>

lemma map_of_drop_key:
  "k' \<noteq> k \<Longrightarrow> map_of (filter (\<lambda>kv. fst kv \<noteq> k) f) k' = map_of f k'"
  by (induction f) auto

lemma build_matcher_ignores_in_list:
  assumes "map_of f ''stringFilter'' = Some sfv"
  shows "build_matcher acc name (filter (\<lambda>kv. fst kv \<noteq> ''inListFilter'') f)
         = build_matcher acc name f"
proof -
  have "map_of (filter (\<lambda>kv. fst kv \<noteq> ''inListFilter'') f) ''stringFilter'' = Some sfv"
    using assms by (simp add: map_of_drop_key)
  with assms show ?thesis by (simp add: build_matcher_def)
qed

text \<open>
  Claim C10: a node with more than one of the four keys is compiled as the node with
  only the first of them that is present, in the order \<^verbatim>\<open>andGroup\<close>, \<^verbatim>\<open>orGroup\<close>,
  \<^verbatim>\<open>notExpression\<close>, \<^verbatim>\<open>filter\<close>: the other keys are not read, and the node is not
  refused for having them. A leaf with a \<^verbatim>\<open>stringFilter\<close> is compiled as the same leaf
  without its \<^verbatim>\<open>inListFilter\<close>.
\<close>

theorem dispatch_precedence:
  "(map_of expr ''andGroup'' = Some v \<longrightarrow>
      build_filter_expr vd acc bld (JObj expr) = build_filter_expr vd acc bld (JObj [(''andGroup'', v)]))
   \<and> (map_of expr ''andGroup'' = None \<and> map_of expr ''orGroup'' = Some v \<longrightarrow>
      build_filter_expr vd acc bld (JObj expr) = build_filter_expr vd acc bld (JObj [(''orGroup'', v)]))
   \<and> (map_of expr ''andGroup'' = None \<and> map_of expr ''orGroup'' = None
       \<and> map_of expr ''notExpression'' = Some v \<longrightarrow>
      build_filter_expr vd acc bld (JObj expr)
      = build_filter_expr vd acc bld (JObj [(''notExpression'', v)]))
   \<and> (map_of expr ''andGroup'' = None \<and> map_of expr ''orGroup'' = None
       \<and> map_of expr ''notExpression'' = None \<and> map_of expr ''filter'' = Some v \<longrightarrow>
      build_filter_expr vd acc bld (JObj expr) = build_filter_expr vd acc bld (JObj [(''filter'', v)]))
   \<and> (map_of f ''stringFilter'' = Some sfv \<longrightarrow>
      build_filter_expr vd acc bld (JObj [(''filter'', JObj f)])
      = build_filter_expr vd acc bld
          (JObj [(''filter'', JObj (filter (\<lambda>kv. fst kv \<noteq> ''inListFilter'') f))]))"
proof (intro conjI impI)
  assume "map_of f ''stringFilter'' = Some sfv"
  then show "build_filter_expr vd acc bld (JObj [(''filter'', JObj f)])
      = build_filter_expr vd acc bld
          (JObj [(''filter'', JObj (filter (\<lambda>kv. fst kv \<noteq> ''inListFilter'') f))])"
    by (auto simp: map_of_drop_key build_matcher_ignores_in_list
             split: option.splits json.splits)
qed (auto simp: group_expressions_def)

theorem dispatch_precedence_witness:
  "build_filter_expr valid_dimensions proto_accepts proto_builds (JObj four_keys)
     = build_filter_expr valid_dimensions proto_accepts proto_builds (JObj [(''andGroup'', and_value)])
   \<and> build_filter_expr valid_dimensions proto_accepts proto_builds (JObj four_keys)
     = Some (And_group [us_filter])
   \<and> build_filter_expr valid_dimensions proto_accepts proto_builds (JObj (tl (rev four_keys)))
     = build_filter_expr valid_dimensions proto_accepts proto_builds (JObj [(''orGroup'', or_value)])
   \<and> build_filter_expr valid_dimensions proto_accepts proto_builds (JObj (take 2 four_keys))
     = build_filter_expr valid_dimensions proto_accepts proto_builds (JObj [(''notExpression'', us_leaf)])
   \<and> build_filter_expr valid_dimensions proto_accepts proto_builds
       (JObj [(''extra'', JNull), (''filter'', JObj two_matchers)])
     = build_filter_expr valid_dimensions proto_accepts proto_builds (JObj [(''filter'', JObj two_matchers)])
   \<and> build_filter_expr valid_dimensions proto_accepts proto_builds (JObj [(''filter'', JObj two_matchers)])
     = build_filter_expr valid_dimensions proto_accepts proto_builds
         (JObj [(''filter'', JObj (tl two_matchers))])
   \<and> build_filter_expr valid_dimensions proto_accepts proto_builds (JObj [(''filter'', JObj two_matchers)])
     = Some us_filter"
proof -
  note p1 = dispatch_precedence[of four_keys and_value valid_dimensions proto_accepts
              proto_builds]
  note p2 = dispatch_precedence[of "tl (rev four_keys)" or_value valid_dimensions proto_accepts
              proto_builds]
  note p3 = dispatch_precedence[of "take 2 four_keys" us_leaf valid_dimensions proto_accepts
              proto_builds]
  note p4 = dispatch_precedence[of "[(''extra'', JNull), (''filter'', JObj two_matchers)]"
              "JObj two_matchers" valid_dimensions proto_accepts proto_builds]
  note p5 = dispatch_precedence[of _ _ valid_dimensions proto_accepts proto_builds two_matchers
              "JObj [(''value'', JStr ''US'')]"]
  have a: "build_filter_expr valid_dimensions proto_accepts proto_builds (JObj [(''andGroup'', and_value)])
           = Some (And_group [us_filter])"
    by (simp add: and_value_def group_expressions_def build_us_leaf construct_def builds_and_us)
  have t: "build_filter_expr valid_dimensions proto_accepts proto_builds
             (JObj [(''filter'', JObj (tl two_matchers))]) = Some us_filter"
    using build_us_leaf by (simp add: two_matchers_def us_leaf_def)
  have d: "filter (\<lambda>kv. fst kv \<noteq> ''inListFilter'') two_matchers = tl two_matchers"
    by (simp add: two_matchers_def)
  have c1: "build_filter_expr valid_dimensions proto_accepts proto_builds (JObj four_keys)
     = build_filter_expr valid_dimensions proto_accepts proto_builds (JObj [(''andGroup'', and_value)])"
    by (rule p1[THEN conjunct1, THEN mp]) (simp add: four_keys_def)
  have c2: "build_filter_expr valid_dimensions proto_accepts proto_builds (JObj (tl (rev four_keys)))
     = build_filter_expr valid_dimensions proto_accepts proto_builds (JObj [(''orGroup'', or_value)])"
    by (rule p2[THEN conjunct2, THEN conjunct1, THEN mp]) (simp add: four_keys_def)
  have c3: "build_filter_expr valid_dimensions proto_accepts proto_builds (JObj (take 2 four_keys))
     = build_filter_expr valid_dimensions proto_accepts proto_builds (JObj [(''notExpression'', us_leaf)])"
    by (rule p3[THEN conjunct2, THEN conjunct2, THEN conjunct1, THEN mp])
       (simp add: four_keys_def)
  have c4: "build_filter_expr valid_dimensions proto_accepts proto_builds
       (JObj [(''extra'', JNull), (''filter'', JObj two_matchers)])
     = build_filter_expr valid_dimensions proto_accepts proto_builds (JObj [(''filter'', JObj two_matchers)])"
    by (rule p4[THEN conjunct2, THEN conjunct2, THEN conjunct2, THEN conjunct1, THEN mp]) simp
  have c5: "build_filter_expr valid_dimensions proto_accepts proto_builds (JObj [(''filter'', JObj two_matchers)])
     = build_filter_expr valid_dimensions proto_accepts proto_builds
         (JObj [(''filter'', JObj (filter (\<lambda>kv. fst kv \<noteq> ''inListFilter'') two_matchers))])"
    by (rule p5[THEN conjunct2, THEN conjunct2, THEN conjunct2, THEN conjunct2, THEN mp])
       (simp add: two_matchers_def)
  show ?thesis
    by (intro conjI) (simp_all only: c1 c2 c3 c4 a c5[unfolded d] t)
qed

section \<open>Facts about the row flattener\<close>

lemma set_values_other:
  "k \<notin> set hs \<Longrightarrow> set_values hs vs i m k = m k"
  by (induction hs arbitrary: i m) auto

lemma set_values_last:
  "j < length hs \<Longrightarrow> hs ! j \<notin> set (drop (Suc j) hs)
   \<Longrightarrow> set_values hs vs i m (hs ! j) = Some (cell vs (i + j))"
proof (induction hs arbitrary: i j m)
  case Nil
  then show ?case by simp
next
  case (Cons h hs)
  show ?case
  proof (cases j)
    case 0
    with Cons.prems show ?thesis
      by (simp add: set_values_other cell_def)
  next
    case (Suc j')
    with Cons.prems have "j' < length hs" "hs ! j' \<notin> set (drop (Suc j') hs)" by auto
    from Cons.IH[OF this] Suc show ?thesis by simp
  qed
qed

lemma dom_set_values:
  "dom (set_values hs vs i m) = dom m \<union> set hs"
  by (induction hs arbitrary: i m) auto

lemma flatten_rows_map:
  "flatten_rows dh mh rs acc = acc @ map (flatten_row dh mh) rs"
  by (induction rs arbitrary: acc) auto

lemma flatten_response_map:
  "flatten_response resp
   = map (flatten_row (dimension_headers resp) (metric_headers resp)) (rows resp)"
  by (simp add: flatten_response_def flatten_rows_map)

lemma flatten_row_metric:
  "j < length mh \<Longrightarrow> mh ! j \<notin> set (drop (Suc j) mh)
   \<Longrightarrow> flatten_row dh mh r (mh ! j) = Some (cell (metric_values r) j)"
  using set_values_last[of j mh "metric_values r" 0] by (simp add: flatten_row_def)

lemma flatten_row_dimension:
  "i < length dh \<Longrightarrow> dh ! i \<notin> set (drop (Suc i) dh) \<Longrightarrow> dh ! i \<notin> set mh
   \<Longrightarrow> flatten_row dh mh r (dh ! i) = Some (cell (dimension_values r) i)"
  using set_values_last[of i dh "dimension_values r" 0]
  by (simp add: flatten_row_def set_values_other)

lemma dom_flatten_row: "dom (flatten_row dh mh r) = set dh \<union> set mh"
  by (simp add: flatten_row_def dom_set_values)

lemma set_values_writes:
  "set_values hs vs i m
   = m ++ map_of (rev (zip hs (map (\<lambda>j. cell vs (i + j)) [0..<length hs])))"
proof (induction hs arbitrary: i m)
  case Nil
  then show ?case by simp
next
  case (Cons h hs)
  have u: "[0..<length (h # hs)] = 0 # map Suc [0..<length hs]"
    by (simp add: upt_conv_Cons map_Suc_upt del: upt_Suc)
  have z: "zip (h # hs) (map (\<lambda>j. cell vs (i + j)) [0..<length (h # hs)])
           = (h, cell vs i) # zip hs (map (\<lambda>j. cell vs (Suc i + j)) [0..<length hs])"
    unfolding u by (simp add: o_def)
  have "set_values (h # hs) vs i m = set_values hs vs (Suc i) (m(h \<mapsto> cell vs i))"
    by (simp add: cell_def)
  also have "\<dots> = m(h \<mapsto> cell vs i)
               ++ map_of (rev (zip hs (map (\<lambda>j. cell vs (Suc i + j)) [0..<length hs])))"
    by (rule Cons.IH)
  also have "\<dots> = m ++ map_of (rev (zip (h # hs)
                      (map (\<lambda>j. cell vs (i + j)) [0..<length (h # hs)])))"
    unfolding z by (auto simp: fun_eq_iff map_add_def split: option.splits)
  finally show ?case .
qed

lemma flatten_row_writes:
  "flatten_row dh mh r
   = map_of (rev (zip dh (map (cell (dimension_values r)) [0..<length dh])
                  @ zip mh (map (cell (metric_values r)) [0..<length mh])))"
  by (simp add: flatten_row_def set_values_writes)

section \<open>Flattened rows\<close>

text \<open>
  Claim C7: the flattener gives one row for each row of the response, in the same
  order, none dropped and none moved; the row at position \<open>k\<close> is made from the row at
  position \<open>k\<close> alone. It is the dict in which the header at each position \<open>i\<close> has
  been bound to the value at position \<open>i\<close> of the row when there is one, and to
  \<^verbatim>\<open>None\<close> when the row's values stop before \<open>i\<close>: the bindings are written in the
  order of the headers, dimensions first (in \<open>map_of\<close> of the reversed list the later
  binding of a name wins). Its keys are the header names, and the binding read back for
  a header is its own unless a later header has the same name.
\<close>

theorem flattened_rows:
  "length (flatten_response resp) = length (rows resp)
   \<and> (\<forall>k < length (rows resp).
        flatten_response resp ! k
          = flatten_row (dimension_headers resp) (metric_headers resp) (rows resp ! k)
        \<and> flatten_response resp ! k
          = map_of (rev (zip (dimension_headers resp)
                           (map (cell (dimension_values (rows resp ! k)))
                              [0..<length (dimension_headers resp)])
                         @ zip (metric_headers resp)
                             (map (cell (metric_values (rows resp ! k)))
                                [0..<length (metric_headers resp)])))
        \<and> dom (flatten_response resp ! k)
            = set (dimension_headers resp) \<union> set (metric_headers resp)
        \<and> (\<forall>i < length (dimension_headers resp).
              dimension_headers resp ! i \<notin> set (drop (Suc i) (dimension_headers resp))
              \<and> dimension_headers resp ! i \<notin> set (metric_headers resp)
              \<longrightarrow> (flatten_response resp ! k) (dimension_headers resp ! i)
                   = Some (if i < length (dimension_values (rows resp ! k))
                           then Some (dimension_values (rows resp ! k) ! i) else None))
        \<and> (\<forall>j < length (metric_headers resp).
              metric_headers resp ! j \<notin> set (drop (Suc j) (metric_headers resp))
              \<longrightarrow> (flatten_response resp ! k) (metric_headers resp ! j)
                   = Some (if j < length (metric_values (rows resp ! k))
                           then Some (metric_values (rows resp ! k) ! j) else None)))"
proof -
  have len: "length (flatten_response resp) = length (rows resp)"
    by (simp add: flatten_response_map)
  have row: "flatten_response resp ! k
          = flatten_row (dimension_headers resp) (metric_headers resp) (rows resp ! k)
        \<and> flatten_response resp ! k
          = map_of (rev (zip (dimension_headers resp)
                           (map (cell (dimension_values (rows resp ! k)))
                              [0..<length (dimension_headers resp)])
                         @ zip (metric_headers resp)
                             (map (cell (metric_values (rows resp ! k)))
                                [0..<length (metric_headers resp)])))
        \<and> dom (flatten_response resp ! k)
            = set (dimension_headers resp) \<union> set (metric_headers resp)
        \<and> (\<forall>i < length (dimension_headers resp).
              dimension_headers resp ! i \<notin> set (drop (Suc i) (dimension_headers resp))
              \<and> dimension_headers resp ! i \<notin> set (metric_headers resp)
              \<longrightarrow> (flatten_response resp ! k) (dimension_headers resp ! i)
                   = Some (if i < length (dimension_values (rows resp ! k))
                           then Some (dimension_values (rows resp ! k) ! i) else None))
        \<and> (\<forall>j < length (metric_headers resp).
              metric_headers resp ! j \<notin> set (drop (Suc j) (metric_headers resp))
              \<longrightarrow> (flatten_response resp ! k) (metric_headers resp ! j)
                   = Some (if j < length (metric_values (rows resp ! k))
                           then Some (metric_values (rows resp ! k) ! j) else None))"
    if k: "k < length (rows resp)" for k
  proof -
    have e: "flatten_response resp ! k
             = flatten_row (dimension_headers resp) (metric_headers resp) (rows resp ! k)"
      using k by (simp add: flatten_response_map)
    show ?thesis
      unfolding e
      by (intro conjI refl flatten_row_writes dom_flatten_row)
         (simp_all add: flatten_row_dimension flatten_row_metric cell_def)
  qed
  show ?thesis
  proof (rule conjI)
    show "length (flatten_response resp) = length (rows resp)" by (rule len)
  qed (rule allI, rule impI, rule row)
qed

theorem flattened_rows_witness:
  "length (flatten_response demo_response) = 3
   \<and> (flatten_response demo_response ! 0) ''date'' = Some (Some ''20240102'')
   \<and> (flatten_response demo_response ! 1) ''date'' = Some (Some ''20240101'')
   \<and> (flatten_response demo_response ! 1) ''totalUsers'' = Some None
   \<and> (flatten_response demo_response ! 2) ''totalUsers'' = Some (Some ''7'')
   \<and> dom (flatten_response demo_response ! 1) = {''date'', ''totalUsers''}"
proof -
  note f = flattened_rows[of demo_response]
  have len: "length (rows demo_response) = 3" by (simp add: demo_response_def)
  have k0: "0 < length (rows demo_response)" and k1: "1 < length (rows demo_response)"
    and k2: "2 < length (rows demo_response)"
    by (simp_all add: len)
  note r0 = f[THEN conjunct2, THEN spec, THEN mp, OF k0]
  note r1 = f[THEN conjunct2, THEN spec, THEN mp, OF k1]
  note r2 = f[THEN conjunct2, THEN spec, THEN mp, OF k2]
  have d0: "(flatten_response demo_response ! 0) ''date'' = Some (Some ''20240102'')"
    using r0[THEN conjunct2, THEN conjunct2, THEN conjunct2, THEN conjunct1, THEN spec, of 0]
    by (simp add: demo_response_def)
  have d1: "(flatten_response demo_response ! 1) ''date'' = Some (Some ''20240101'')"
    using r1[THEN conjunct2, THEN conjunct2, THEN conjunct2, THEN conjunct1, THEN spec, of 0]
    by (simp add: demo_response_def)
  have m1: "(flatten_response demo_response ! 1) ''totalUsers'' = Some None"
    using r1[THEN conjunct2, THEN conjunct2, THEN conjunct2, THEN conjunct2, THEN spec, of 0]
    by (simp add: demo_response_def)
  have m2: "(flatten_response demo_response ! 2) ''totalUsers'' = Some (Some ''7'')"
    using r2[THEN conjunct2, THEN conjunct2, THEN conjunct2, THEN conjunct2, THEN spec, of 0]
    by (simp add: demo_response_def)
  have dm: "dom (flatten_response demo_response ! 1) = {''date'', ''totalUsers''}"
    using r1[THEN conjunct2, THEN conjunct2, THEN conjunct1]
    by (auto simp add: demo_response_def)
  from f[THEN conjunct1] len d0 d1 m1 m2 dm show ?thesis by simp
qed

section \<open>A name shared by a dimension and a metric\<close>

text \<open>
  Claim C8: when a dimension header and a metric header have the same name, each
  flattened row binds that name to the metric's value (or to \<^verbatim>\<open>None\<close> when the row has
  no metric value at that position): the metrics are written after the dimensions. The
  metric header meant is the last one of that name.
\<close>

theorem metric_overwrites_dimension:
  assumes "k < length (rows resp)"
    and "name \<in> set (dimension_headers resp)"
    and "j < length (metric_headers resp)" and "metric_headers resp ! j = name"
    and "name \<notin> set (drop (Suc j) (metric_headers resp))"
  shows "(flatten_response resp ! k) name
         = Some (if j < length (metric_values (rows resp ! k))
                 then Some (metric_values (rows resp ! k) ! j) else None)"
  using assms
    flatten_row_metric[of j "metric_headers resp" "dimension_headers resp" "rows resp ! k"]
  by (simp add: flatten_response_map cell_def)

theorem metric_overwrites_dimension_witness:
  "(flatten_response shared_response ! 0) ''x'' = Some (Some ''42'')
   \<and> dimension_headers shared_response ! 1 = ''x''
   \<and> dimension_values (rows shared_response ! 0) ! 1 = ''dimension''"
proof -
  have "(flatten_response shared_response ! 0) ''x''
        = Some (if 0 < length (metric_values (rows shared_response ! 0))
                then Some (metric_values (rows shared_response ! 0) ! 0) else None)"
    by (rule metric_overwrites_dimension) (simp_all add: shared_response_def)
  then show ?thesis by (simp add: shared_response_def)
qed

section \<open>Facts about strings and the list normalizer\<close>

lemma rev_dropWhile_rev_prefix:
  "\<exists>w. t = rev (dropWhile P (rev t)) @ w"
proof -
  have "rev t = takeWhile P (rev t) @ dropWhile P (rev t)" by simp
  then have "rev (rev t) = rev (takeWhile P (rev t) @ dropWhile P (rev t))" by simp
  then have "t = rev (dropWhile P (rev t)) @ rev (takeWhile P (rev t))"
    by (simp only: rev_rev_ident rev_append)
  then show ?thesis ..
qed

lemma dropWhile_strip: "dropWhile is_space (strip s) = strip s"
proof (cases "strip s")
  case Nil
  then show ?thesis by simp
next
  case (Cons c cs)
  let ?t = "dropWhile is_space s"
  obtain w where w: "?t = strip s @ w"
    using rev_dropWhile_rev_prefix[of ?t is_space] by (auto simp: strip_def)
  with Cons have t: "?t = c # cs @ w" by simp
  then have "?t \<noteq> []" by simp
  then have "\<not> is_space (hd ?t)" by (rule hd_dropWhile)
  with t have "\<not> is_space c" by simp
  with Cons show ?thesis by simp
qed

lemma strip_idem: "strip (strip s) = strip s"
proof -
  have "strip (strip s) = rev (dropWhile is_space (rev (strip s)))"
    by (simp add: strip_def[of "strip s"] dropWhile_strip)
  also have "\<dots> = strip s"
    by (simp add: strip_def dropWhile_idem)
  finally show ?thesis .
qed

lemma strip_empty_iff: "strip w = [] \<longleftrightarrow> (\<forall>c \<in> set w. is_space c)"
proof
  assume "strip w = []"
  then have "dropWhile is_space (rev (dropWhile is_space w)) = []" by (simp add: strip_def)
  then have "\<forall>c \<in> set (rev (dropWhile is_space w)). is_space c"
    by (simp add: dropWhile_eq_Nil_conv)
  then have "\<forall>c \<in> set (dropWhile is_space w). is_space c" by simp
  moreover have "dropWhile is_space w \<noteq> [] \<Longrightarrow> \<not> is_space (hd (dropWhile is_space w))"
    by (rule hd_dropWhile)
  ultimately have "dropWhile is_space w = []"
    by (cases "dropWhile is_space w") auto
  then show "\<forall>c \<in> set w. is_space c" by (simp add: dropWhile_eq_Nil_conv)
next
  assume "\<forall>c \<in> set w. is_space c"
  then have "dropWhile is_space w = []" by (simp add: dropWhile_eq_Nil_conv)
  then show "strip w = []" by (simp only: strip_def rev.simps dropWhile.simps)
qed

lemma split_no_sep: "sep \<notin> set w \<Longrightarrow> split sep w = [w]"
  by (induction w) auto

lemma split_append_sep:
  "sep \<notin> set w \<Longrightarrow> split sep (w @ sep # rest) = w # split sep rest"
  by (induction w) auto

lemma split_join:
  "ws \<noteq> [] \<Longrightarrow> \<forall>w \<in> set ws. sep \<notin> set w \<Longrightarrow> split sep (join sep ws) = ws"
proof (induction sep ws rule: join.induct)
  case (1 sep)
  then show ?case by simp
next
  case (2 sep w)
  then show ?case by (simp add: split_no_sep)
next
  case (3 sep w v ws)
  then show ?case by (simp add: split_append_sep)
qed

lemma strip_and_drop_empty_strs:
  "strip_and_drop_empty (map JStr xs) = filter (\<lambda>x. x \<noteq> []) (map strip xs)"
  by (induction xs) (auto simp: strip_and_drop_empty_def)

lemma parse_field_list_native:
  "parse_field_list ld (JList (map JStr xs)) = Inr (filter (\<lambda>x. x \<noteq> []) (map strip xs))"
  by (simp add: parse_field_list_def strip_and_drop_empty_strs)

lemma parse_field_list_json_text:
  "ld s = Inr (JList (map JStr xs))
   \<Longrightarrow> parse_field_list ld (JStr s) = Inr (filter (\<lambda>x. x \<noteq> []) (map strip xs))"
  by (simp add: parse_field_list_def parse_string_arg_def strip_and_drop_empty_strs)

lemma parse_field_list_comma_text:
  assumes "ld s = Inl JSONDecodeError"
  shows "parse_field_list ld (JStr s)
         = Inr (filter (\<lambda>x. x \<noteq> []) (map strip (split CHR '','' s)))"
proof -
  have m: "map (\<lambda>d. JStr (strip d)) ws = map JStr (map strip ws)" for ws
    by simp
  have i: "map strip (map strip ws) = map strip ws" for ws
    by (simp add: strip_idem)
  have "parse_field_list ld (JStr s)
        = Inr (strip_and_drop_empty (map JStr (map strip (split CHR '','' s))))"
    using assms by (simp add: parse_field_list_def parse_string_arg_def m del: map_map)
  then show ?thesis
    by (simp only: strip_and_drop_empty_strs i)
qed

section \<open>The three encodings of a field list\<close>

text \<open>
  Claim C2, as the spec states it: a list of field names given as a native sequence, as
  the text of a JSON array, or as a comma-separated text is normalized to the same list.
  A comma-separated text is first handed to \<^verbatim>\<open>json.loads\<close> (line 764), and the split
  on commas is only the fallback of line 768: the one name \<^verbatim>\<open>true\<close>, written as a
  comma-separated text, is a JSON document, and line 766 turns the value read into
  \<^verbatim>\<open>str(True)\<close>.
\<close>

theorem json_scalar_text_counterexample:
  "parse_field_list json_loads (JList [JStr ''true'']) = Inr [''true'']
   \<and> parse_field_list json_loads (JStr ''[\"true\"]'') = Inr [''true'']
   \<and> parse_field_list json_loads (JStr ''true'') = Inr [''True'']"
  by code_simp

text \<open>
  Claim C2, amended: the three encodings of the same names are normalized to the same
  list, the names stripped of surrounding white space and the empty ones dropped,
  provided that the comma-separated text is not itself a JSON document
  (\<^verbatim>\<open>json.loads\<close> raises \<^verbatim>\<open>JSONDecodeError\<close> on it). The names in the three
  encodings may differ in their surrounding white space; a name written between commas
  holds no comma. A text that \<^verbatim>\<open>json.loads\<close> reads as a value other than a list is
  normalized to the one name \<^verbatim>\<open>str(value)\<close>.
\<close>

theorem encodings_agree:
  assumes "\<forall>c \<in> set cs. CHR '','' \<notin> set c"
    and "map strip ns = contents" and "map strip js = contents" and "map strip cs = contents"
    and "ld array_text = Inr (JList (map JStr js))"
    and "ld (join CHR '','' cs) = Inl JSONDecodeError"
  shows "parse_field_list ld (JList (map JStr ns)) = Inr (filter (\<lambda>x. x \<noteq> []) contents)
       \<and> parse_field_list ld (JStr array_text) = Inr (filter (\<lambda>x. x \<noteq> []) contents)
       \<and> parse_field_list ld (JStr (join CHR '','' cs)) = Inr (filter (\<lambda>x. x \<noteq> []) contents)
       \<and> (\<forall>s v. ld s = Inr v \<and> (\<forall>xs. v \<noteq> JList xs)
             \<longrightarrow> parse_field_list ld (JStr s) = Inr (filter (\<lambda>x. x \<noteq> []) [strip (py_str v)]))"
proof (intro conjI)
  show "parse_field_list ld (JList (map JStr ns)) = Inr (filter (\<lambda>x. x \<noteq> []) contents)"
    using assms(2) by (simp add: parse_field_list_native)
  show "parse_field_list ld (JStr array_text) = Inr (filter (\<lambda>x. x \<noteq> []) contents)"
    using assms(3,5) by (simp add: parse_field_list_json_text)
  show "parse_field_list ld (JStr (join CHR '','' cs)) = Inr (filter (\<lambda>x. x \<noteq> []) contents)"
  proof (cases "cs = []")
    case True
    with assms(4,6) show ?thesis
      by (simp add: parse_field_list_comma_text strip_def)
  next
    case False
    with assms(1) have "split CHR '','' (join CHR '','' cs) = cs" by (rule split_join[rotated])
    with assms(4,6) show ?thesis by (simp add: parse_field_list_comma_text)
  qed
  show "\<forall>s v. ld s = Inr v \<and> (\<forall>xs. v \<noteq> JList xs)
             \<longrightarrow> parse_field_list ld (JStr s) = Inr (filter (\<lambda>x. x \<noteq> []) [strip (py_str v)])"
  proof (intro allI impI)
    fix s v
    assume h: "ld s = Inr v \<and> (\<forall>xs. v \<noteq> JList xs)"
    then have "parse_string_arg ld s = Inr (JList [JStr (py_str v)])"
      by (cases v) (simp_all add: parse_string_arg_def)
    then show "parse_field_list ld (JStr s) = Inr (filter (\<lambda>x. x \<noteq> []) [strip (py_str v)])"
      by (simp add: parse_field_list_def strip_and_drop_empty_def)
  qed
qed

theorem encodings_agree_witness:
  "parse_field_list json_loads (JList [JStr ''date'', JStr '' city'', JStr '' ''])
     = Inr [''date'', ''city'']
   \<and> parse_field_list json_loads (JStr ''[\"date \", \"city\", \"\"]'') = Inr [''date'', ''city'']
   \<and> parse_field_list json_loads (JStr ''date, city ,'') = Inr [''date'', ''city'']
   \<and> parse_field_list json_loads (JStr ''null'') = Inr [''None'']"
proof -
  have c: "\<forall>c \<in> set [''date'', '' city '', []]. CHR '','' \<notin> set c" by simp
  have n: "map strip [''date'', '' city'', '' ''] = [''date'', ''city'', []]" by code_simp
  have j: "map strip [''date '', ''city'', []] = [''date'', ''city'', []]" by code_simp
  have s: "map strip [''date'', '' city '', []] = [''date'', ''city'', []]" by code_simp
  have a: "json_loads ''[\"date \", \"city\", \"\"]''
           = Inr (JList (map JStr [''date '', ''city'', []]))" by code_simp
  have e: "json_loads (join CHR '','' [''date'', '' city '', []]) = Inl JSONDecodeError"
    by code_simp
  have l: "json_loads ''null'' = Inr JNull" by code_simp
  have v: "json_loads ''null'' = Inr JNull \<and> (\<forall>xs. JNull \<noteq> JList xs)"
    by (simp add: l)
  have p: "filter (\<lambda>x. x \<noteq> []) [strip (py_str JNull)] = [''None'']" by code_simp
  note t = encodings_agree[OF c n j s a e]
  have three: "parse_field_list json_loads (JList [JStr ''date'', JStr '' city'', JStr '' ''])
                 = Inr [''date'', ''city'']
     \<and> parse_field_list json_loads (JStr ''[\"date \", \"city\", \"\"]'') = Inr [''date'', ''city'']
     \<and> parse_field_list json_loads (JStr ''date, city ,'') = Inr [''date'', ''city'']"
    using t[THEN conjunct1] t[THEN conjunct2, THEN conjunct1]
      t[THEN conjunct2, THEN conjunct2, THEN conjunct1]
    by simp
  have scalar: "parse_field_list json_loads (JStr ''null'') = Inr [''None'']"
    by (rule t[THEN conjunct2, THEN conjunct2, THEN conjunct2, THEN spec, THEN spec, THEN mp,
          OF v, unfolded p])
  from three scalar show ?thesis by (simp only: simp_thms)
qed

section \<open>Lists that are empty after normalization\<close>

lemma blank_list_normalizes_to_empty:
  assumes "\<forall>w \<in> set ws. \<forall>c \<in> set w. is_space c"
  shows "parse_field_list ld (JList (map JStr ws)) = Inr []"
proof -
  from assms have "\<forall>w \<in> set ws. strip w = []" by (simp add: strip_empty_iff)
  then have "filter (\<lambda>x. x \<noteq> []) (map strip ws) = []" by (induction ws) auto
  then show ?thesis by (simp add: parse_field_list_native)
qed

lemma empty_text_normalizes_to_empty:
  assumes "ld [] = Inl JSONDecodeError"
  shows "parse_field_list ld (JStr []) = Inr []"
  using assms by (simp add: parse_field_list_comma_text strip_def)

lemma get_ga4_data_dimensions_empty:
  assumes "check_property env pid = Inr None"
    and "parse_field_list (loads env) dims = Inr []"
    and "parse_field_list (loads env) mets = Inr ms"
  shows "get_ga4_data env pid dims mets s e f = Returns (Error Dimensions_empty)"
  using assms by (simp add: get_ga4_data_def try_body_def)

lemma get_ga4_data_metrics_empty:
  assumes "check_property env pid = Inr None"
    and "nonempty_list (parse_field_list (loads env) dims)"
    and "parse_field_list (loads env) mets = Inr []"
  shows "get_ga4_data env pid dims mets s e f = Returns (Error Metrics_empty)"
  using assms
  by (auto simp: get_ga4_data_def try_body_def nonempty_list_def split: sum.splits list.splits)

text \<open>
  Claim C3: an argument that is the empty string, the empty list, or a list of strings
  made of white space only (the empty list is the case of no string at all) is
  normalized to the empty list, and the query operation returns the error of line 784
  when it is the dimensions, of line 786 when it is the metrics, instead of going on.
  The property has passed the checks of lines 744 to 758, which come first, and the
  other list is normalized without an exception (dimensions empty) or to a list that is
  not empty (metrics empty). \<^verbatim>\<open>json.loads\<close> raises \<^verbatim>\<open>JSONDecodeError\<close> on the empty
  text.
\<close>

theorem empty_list_is_refused:
  assumes "check_property env pid = Inr None"
    and "arg = JStr [] \<or> (\<exists>ws. arg = JList (map JStr ws) \<and> (\<forall>w \<in> set ws. \<forall>c \<in> set w. is_space c))"
    and "loads env [] = Inl JSONDecodeError"
  shows "parse_field_list (loads env) arg = Inr []
    \<and> (\<forall>other ms. parse_field_list (loads env) other = Inr ms
          \<longrightarrow> get_ga4_data env pid arg other s e f = Returns (Error Dimensions_empty))
    \<and> (\<forall>other. nonempty_list (parse_field_list (loads env) other)
          \<longrightarrow> get_ga4_data env pid other arg s e f = Returns (Error Metrics_empty))"
proof -
  have n: "parse_field_list (loads env) arg = Inr []"
    using assms(2,3)
    by (auto simp: blank_list_normalizes_to_empty empty_text_normalizes_to_empty)
  show ?thesis
  proof (intro conjI allI impI)
    show "parse_field_list (loads env) arg = Inr []" by (rule n)
  next
    fix other ms
    assume "parse_field_list (loads env) other = Inr ms"
    with assms(1) n show "get_ga4_data env pid arg other s e f = Returns (Error Dimensions_empty)"
      by (rule get_ga4_data_dimensions_empty)
  next
    fix other
    assume "nonempty_list (parse_field_list (loads env) other)"
    with assms(1) show "get_ga4_data env pid other arg s e f = Returns (Error Metrics_empty)"
      using n by (rule get_ga4_data_metrics_empty)
  qed
qed

theorem empty_list_is_refused_witness:
  "get_ga4_data demo_env (JStr ''123'') (JStr []) (JList [JStr ''totalUsers''])
     ''7daysAgo'' ''yesterday'' JNull = Returns (Error Dimensions_empty)
   \<and> get_ga4_data demo_env (JStr ''123'') (JList []) (JList [JStr ''totalUsers''])
     ''7daysAgo'' ''yesterday'' JNull = Returns (Error Dimensions_empty)
   \<and> get_ga4_data demo_env (JStr ''123'') (JList [JStr ''date'']) (JList [JStr '' '', JStr []])
     ''7daysAgo'' ''yesterday'' JNull = Returns (Error Metrics_empty)"
proof -
  have l: "loads demo_env [] = Inl JSONDecodeError"
    unfolding demo_loads by code_simp
  have a1: "JStr [] = JStr [] \<or> (\<exists>ws. JStr [] = JList (map JStr ws)
              \<and> (\<forall>w \<in> set ws. \<forall>c \<in> set w. is_space c))"
    by simp
  have a2: "JList [] = JStr [] \<or> (\<exists>ws. JList [] = JList (map JStr ws)
              \<and> (\<forall>w \<in> set ws. \<forall>c \<in> set w. is_space c))"
    by simp
  have "\<forall>w \<in> set ['' '', []]. \<forall>c \<in> set w. is_space c" by (simp add: is_space_def)
  then have "JList [JStr '' '', JStr []] = JList (map JStr ['' '', []])
              \<and> (\<forall>w \<in> set ['' '', []]. \<forall>c \<in> set w. is_space c)"
    by simp
  then have a3: "JList [JStr '' '', JStr []] = JStr []
       \<or> (\<exists>ws. JList [JStr '' '', JStr []] = JList (map JStr ws)
              \<and> (\<forall>w \<in> set ws. \<forall>c \<in> set w. is_space c))"
    by (intro disjI2 exI[of _ "['' '', []]"])
  have u: "parse_field_list (loads demo_env) (JList [JStr ''totalUsers'']) = Inr [''totalUsers'']"
    by (simp add: demo_loads demo_parse_users)
  have d: "nonempty_list (parse_field_list (loads demo_env) (JList [JStr ''date'']))"
    by (simp add: demo_loads demo_parse_date nonempty_list_def)
  note t1 = empty_list_is_refused[OF demo_check_property a1 l, THEN conjunct2, THEN conjunct1,
              THEN spec, THEN spec, THEN mp, OF u]
  note t2 = empty_list_is_refused[OF demo_check_property a2 l, THEN conjunct2, THEN conjunct1,
              THEN spec, THEN spec, THEN mp, OF u]
  note t3 = empty_list_is_refused[OF demo_check_property a3 l, THEN conjunct2, THEN conjunct2,
              THEN spec, THEN mp, OF d]
  from t1 t2 t3 show ?thesis by simp
qed

section \<open>A top-level specification without a recognized key\<close>

lemma build_no_recognized_key:
  "no_recognized_key expr \<Longrightarrow> build_filter_expr vd acc bld (JObj expr) = None"
  by (simp add: no_recognized_key_def)

lemma compile_filter_falsy: "\<not> py_truthy arg \<Longrightarrow> compile_filter env arg = Inr None"
  by (simp add: compile_filter_def)

lemma get_ga4_data_same_filter:
  assumes "compile_filter env arg = compile_filter env arg'"
  shows "get_ga4_data env pid dims mets s e arg = get_ga4_data env pid dims mets s e arg'"
  unfolding get_ga4_data_def try_body_def assms by (rule refl)

lemma demo_credentials: "get_oauth_credentials (oauth demo_env) = Returns good_credentials"
  by (simp add: demo_env_def demo_oauth_def get_oauth_credentials_def good_credentials_def)

lemma demo_unfiltered:
  assumes "compile_filter demo_env arg = Inr None"
  shows "get_ga4_data demo_env (JStr ''123'') (JList [JStr ''date''])
           (JList [JStr ''totalUsers'']) s e arg = Returns (Rows (flatten_response demo_response))"
proof -
  have r: "run_report demo_env request
           = (if dimension_filter request = None then Inr demo_response
              else Inl (Exception ''filtered'' No_details))" for request
    by (simp add: demo_env_def)
  show ?thesis
    using assms
    by (simp add: get_ga4_data_def try_body_def demo_check_property demo_loads
          demo_parse_date demo_parse_users demo_credentials r request_filter_def)
qed

text \<open>
  Line 899 at work: the group without children is compiled, the message is falsy, and
  the request goes out without a filter.
\<close>

lemma empty_group_runs_unfiltered:
  "get_ga4_data demo_env (JStr ''123'') (JList [JStr ''date'']) (JList [JStr ''totalUsers''])
     ''7daysAgo'' ''yesterday'' (JObj [(''andGroup'', JObj [(''expressions'', JList [])])])
   = Returns (Rows (flatten_response demo_response))"
proof -
  have c: "compile_filter demo_env (JObj [(''andGroup'', JObj [(''expressions'', JList [])])])
           = Inr (Some (And_group []))"
    by (simp add: compile_filter_def parse_filter_arg_def demo_accepts demo_builds
          group_expressions_def construct_def proto_builds_def)
  have t: "request_filter demo_env (Some (And_group [])) = None"
    by (simp add: request_filter_def demo_env_def proto_truthy_def)
  have r: "run_report demo_env request
           = (if dimension_filter request = None then Inr demo_response
              else Inl (Exception ''filtered'' No_details))" for request
    by (simp add: demo_env_def)
  show ?thesis
    by (simp add: get_ga4_data_def try_body_def demo_check_property demo_loads
          demo_parse_date demo_parse_users demo_credentials r c t)
qed

text \<open>
  Claim C6, as the spec states it: a filter specification whose top-level node is empty
  makes the query operation fail instead of running the query without a filter. Line
  790 reads \<^verbatim>\<open>if dimension_filter:\<close>, and the empty dict is falsy: the compiler is
  not called, the request is built without a filter, and the backend (which here
  answers only requests that carry no filter) is asked.
\<close>

theorem empty_dict_filter_counterexample:
  "no_recognized_key []
   \<and> compile_filter demo_env (JObj []) = Inr None
   \<and> get_ga4_data demo_env (JStr ''123'') (JList [JStr ''date'']) (JList [JStr ''totalUsers''])
        ''7daysAgo'' ''yesterday'' (JObj [])
      = Returns (Rows (flatten_response demo_response))"
proof -
  have c: "compile_filter demo_env (JObj []) = Inr None"
    by (simp add: compile_filter_def)
  from c demo_unfiltered[OF c] show ?thesis
    by (simp add: no_recognized_key_def)
qed

text \<open>
  Claim C6, amended: when the filter argument is truthy (a dict that is not empty, or
  a text that is not empty) and the specification it gives is a dict with none of the
  four keys, the query operation returns the error of line 888 and does not run the
  query. A falsy argument (such as the empty dict or the empty text) is no filter: the
  operation does what it does when no filter is given. The call has passed the checks
  that come before the filter.
\<close>

theorem unrecognized_top_level_is_refused:
  assumes "reaches_filter env pid dims mets"
  shows "(py_truthy arg \<and> parse_filter_arg env arg = Inr (JObj expr) \<and> no_recognized_key expr
          \<longrightarrow> get_ga4_data env pid dims mets s e arg = Returns (Error Invalid_filter))
       \<and> (\<not> py_truthy arg
          \<longrightarrow> compile_filter env arg = Inr None
              \<and> get_ga4_data env pid dims mets s e arg = get_ga4_data env pid dims mets s e JNull)"
proof (intro conjI impI)
  assume h: "py_truthy arg \<and> parse_filter_arg env arg = Inr (JObj expr) \<and> no_recognized_key expr"
  then have "no_recognized_key expr" by (rule conjunct2[THEN conjunct2])
  then have "build_filter_expr valid_dimensions (accepts env) (builds env) (JObj expr) = None"
    by (rule build_no_recognized_key)
  with h have "compile_filter env arg = Inl Invalid_filter"
    by (intro compile_filter_invalid) auto
  with assms show "get_ga4_data env pid dims mets s e arg = Returns (Error Invalid_filter)"
    by (rule get_ga4_data_filter_error)
next
  assume "\<not> py_truthy arg"
  then show "compile_filter env arg = Inr None" by (rule compile_filter_falsy)
next
  assume "\<not> py_truthy arg"
  then have "compile_filter env arg = compile_filter env JNull"
    by (simp add: compile_filter_falsy)
  then show "get_ga4_data env pid dims mets s e arg = get_ga4_data env pid dims mets s e JNull"
    by (rule get_ga4_data_same_filter)
qed

theorem unrecognized_top_level_is_refused_witness:
  "get_ga4_data demo_env (JStr ''123'') (JList [JStr ''date'']) (JList [JStr ''totalUsers''])
     ''7daysAgo'' ''yesterday'' (JObj [(''limit'', JInt 5)]) = Returns (Error Invalid_filter)
   \<and> get_ga4_data demo_env (JStr ''123'') (JList [JStr ''date'']) (JList [JStr ''totalUsers''])
     ''7daysAgo'' ''yesterday'' (JStr ''{}'') = Returns (Error Invalid_filter)
   \<and> get_ga4_data demo_env (JStr ''123'') (JList [JStr ''date'']) (JList [JStr ''totalUsers''])
     ''7daysAgo'' ''yesterday'' (JStr [])
     = get_ga4_data demo_env (JStr ''123'') (JList [JStr ''date'']) (JList [JStr ''totalUsers''])
         ''7daysAgo'' ''yesterday'' JNull"
proof -
  note t = unrecognized_top_level_is_refused[OF demo_reaches_filter]
  have l: "json_loads ''{}'' = Inr (JObj [])" by code_simp
  have h1: "py_truthy (JObj [(''limit'', JInt 5)])
            \<and> parse_filter_arg demo_env (JObj [(''limit'', JInt 5)]) = Inr (JObj [(''limit'', JInt 5)])
            \<and> no_recognized_key [(''limit'', JInt 5)]"
    by (simp add: parse_filter_arg_def no_recognized_key_def)
  have h2: "py_truthy (JStr ''{}'') \<and> parse_filter_arg demo_env (JStr ''{}'') = Inr (JObj [])
            \<and> no_recognized_key []"
    by (simp add: parse_filter_arg_def no_recognized_key_def demo_loads l)
  have h3: "\<not> py_truthy (JStr [])" by simp
  from t[THEN conjunct1, THEN mp, OF h1] t[THEN conjunct1, THEN mp, OF h2]
    t[THEN conjunct2, THEN mp, OF h3, THEN conjunct2]
  show ?thesis by (intro conjI)
qed

section \<open>Failures of the query operation\<close>

text \<open>
  Claim C9: every failure path of the query operation returns an error value to the
  caller instead of raising. The handler of lines 917 to 932 is there to do so, and
  line 930 keeps it from doing so: \<^verbatim>\<open>hasattr(e, 'details')\<close> holds of the errors that
  the backend's client raises, whose \<^verbatim>\<open>details\<close> is a list and no method; calling
  it raises \<^verbatim>\<open>TypeError\<close> inside the handler, and the \<^verbatim>\<open>return\<close> of line 932 is
  not reached. Below, the backend refuses a request that has passed every check.
\<close>

theorem backend_error_escapes_handler:
  "get_ga4_data refusing_env (JStr ''123'') (JList [JStr ''date'']) (JList [JStr ''totalUsers''])
     ''7daysAgo'' ''yesterday'' JNull = Raises TypeError"
proof -
  have c: "check_property refusing_env (JStr ''123'') = Inr None"
    by (simp add: check_property_def refusing_env_def demo_env_def demo_manager_def)
  have l: "loads refusing_env = json_loads" by (simp add: refusing_env_def demo_env_def)
  have o: "get_oauth_credentials (oauth refusing_env) = Returns good_credentials"
    using demo_credentials by (simp add: refusing_env_def)
  have r: "run_report refusing_env request
           = Inl (Exception ''403 permission denied'' Details_value)" for request
    by (simp add: refusing_env_def)
  show ?thesis
    by (simp add: get_ga4_data_def try_body_def c l o r demo_parse_date demo_parse_users
          compile_filter_def handler_def request_filter_def)
qed

text \<open>
  The operation also leaves without a value when the acquisition of the credentials
  does: line 891 calls \<^verbatim>\<open>get_authenticated_client\<close>, which calls
  \<^verbatim>\<open>get_oauth_credentials\<close>; with an expired token that cannot be refreshed and no
  client id configured, line 238 calls \<^verbatim>\<open>sys.exit(1)\<close>, and \<^verbatim>\<open>SystemExit\<close> is no
  \<^verbatim>\<open>Exception\<close>.
\<close>

lemma credentials_exit_leaves_operation:
  "get_ga4_data stale_env (JStr ''123'') (JList [JStr ''date'']) (JList [JStr ''totalUsers''])
     ''7daysAgo'' ''yesterday'' JNull = SystemExit 1"
proof -
  have c: "check_property stale_env (JStr ''123'') = Inr None"
    by (simp add: check_property_def stale_env_def demo_env_def demo_manager_def)
  have l: "loads stale_env = json_loads" by (simp add: stale_env_def demo_env_def)
  have o: "get_oauth_credentials (oauth stale_env) = SystemExit 1"
    by (simp add: stale_env_def stale_oauth_def get_oauth_credentials_def falsy_text_def)
  show ?thesis
    by (simp add: get_ga4_data_def try_body_def c l o demo_parse_date demo_parse_users
          compile_filter_def request_filter_def)
qed

end
